theory Spec2Isabelle
  imports Main "HOL-Library.Char_ord" "HOL-Library.List_Lexorder"
begin

section \<open>Python values used by sentinelsat/sentinel.py\<close>

text \<open>
  Python strings are modelled as \<open>string\<close>, one \<open>char\<close> per byte; the order on
  strings is the lexicographic order by character code with a proper prefix
  smaller, which is what Python's \<open><=\<close> and \<open>sorted\<close> use on \<open>str\<close>.

  A decoded JSON document, as \<open>response.json()\<close> returns it. A number is kept
  as its literal: no modelled operation looks into one. A dict is an
  association list; \<open>map_of\<close> reads it.
\<close>

datatype json =
    JNull
  | JBool bool
  | JNum string
  | JStr string
  | JArr "json list"
  | JObj "(string \<times> json) list"

text \<open>
  The exceptions the module raises or lets through. The first four are the
  classes that \<open>download_all\<close> re-raises. \<open>SentinelAPIError\<close> carries
  \<open>http_status\<close>, \<open>code\<close>, \<open>msg\<close> and \<open>response_body\<close> (\<open>JNull\<close> is Python's
  None). \<open>OtherException\<close> stands for any class that is none of the listed
  ones and no subclass of them, tagged with its name, e.g. a transport error
  of requests or pycurl.
\<close>

datatype exn =
    KeyboardInterrupt
  | SystemExit
  | SystemError
  | MemoryError
  | InvalidChecksumError string
  | SentinelAPIError nat json json string
  | AssertionError string
  | KeyError string
  | TypeError
  | IndexError
  | IOError
  | OtherException string

text \<open>\<open>v[key]\<close> for a string key: only a dict can be read that way.\<close>

definition getitem :: "json \<Rightarrow> string \<Rightarrow> exn + json" where
  "getitem v key =
     (case v of
        JObj kvs \<Rightarrow> (case map_of kvs key of None \<Rightarrow> Inl (KeyError key) | Some x \<Rightarrow> Inr x)
      | _ \<Rightarrow> Inl TypeError)"

subsection \<open>String methods\<close>

definition lower_char :: "char \<Rightarrow> char" where
  "lower_char c =
     (case map_of (zip ''ABCDEFGHIJKLMNOPQRSTUVWXYZ'' ''abcdefghijklmnopqrstuvwxyz'') c of
        Some l \<Rightarrow> l
      | None \<Rightarrow> c)"

text \<open>\<open>s.lower()\<close>, on ASCII letters.\<close>

definition lower :: "string \<Rightarrow> string" where
  "lower s = map lower_char s"

definition is_space :: "char \<Rightarrow> bool" where
  "is_space c = (c \<in> set [CHR 0x09, CHR 0x0A, CHR 0x0B, CHR 0x0C, CHR 0x0D, CHR 0x20])"

text \<open>\<open>s.split()[0]\<close>: the first run of non-blank characters, IndexError when there is none.\<close>

definition split_first :: "string \<Rightarrow> exn + string" where
  "split_first s =
     (let t = takeWhile (\<lambda>c. \<not> is_space c) (dropWhile is_space s)
      in if t = [] then Inl IndexError else Inr t)"

definition rstrip :: "string \<Rightarrow> string" where
  "rstrip s = rev (dropWhile is_space (rev s))"

definition strip :: "string \<Rightarrow> string" where
  "strip s = rstrip (dropWhile is_space s)"

definition startswith :: "string \<Rightarrow> string \<Rightarrow> bool" where
  "startswith s p = (take (length p) s = p)"

definition endswith :: "string \<Rightarrow> string \<Rightarrow> bool" where
  "endswith s p = (length p \<le> length s \<and> drop (length s - length p) s = p)"

text \<open>\<open>s.split(sep)\<close> for a separator of one character: the fields between its occurrences.\<close>

fun split_sep :: "char \<Rightarrow> string \<Rightarrow> string list" where
  "split_sep sep [] = [[]]"
| "split_sep sep (c # cs) =
     (if c = sep then [] # split_sep sep cs
      else (case split_sep sep cs of
              field # rest \<Rightarrow> (c # field) # rest
            | [] \<Rightarrow> [[c]]))"

text \<open>\<open>xs[i]\<close> for a list and an index that is not negative.\<close>

definition index :: "'a list \<Rightarrow> nat \<Rightarrow> exn + 'a" where
  "index xs i = (if i < length xs then Inr (xs ! i) else Inl IndexError)"

text \<open>\<open>os.path.join(a, b)\<close> of posixpath.\<close>

definition join :: "string \<Rightarrow> string \<Rightarrow> string" where
  "join a b =
     (if startswith b ''/'' then b
      else if a = [] \<or> endswith a ''/'' then a @ b
      else a @ ''/'' @ b)"

section \<open>format\_date and format\_query\<close>

text \<open>
  The functions of Python's datetime module that \<open>format_date\<close> and
  \<open>format_query\<close> call are parameters of the model:
  \<open>strftime_iso d\<close> is \<open>d.strftime('%Y-%m-%dT%H:%M:%SZ')\<close>,
  \<open>strptime_ymd s\<close> is \<open>datetime.strptime(s, '%Y%m%d')\<close> (\<open>None\<close> when it
  raises ValueError) and \<open>minus_24h d\<close> is \<open>d - timedelta(hours=24)\<close>.
  The type \<open>'dt\<close> is the type of date and datetime objects.
\<close>

record 'dt timelib =
  strftime_iso :: "'dt \<Rightarrow> string"
  strptime_ymd :: "string \<Rightarrow> 'dt option"
  minus_24h :: "'dt \<Rightarrow> 'dt"

text \<open>A date argument is a date or datetime object, or a string.\<close>

datatype 'dt date_arg = DateObj 'dt | DateStr string

definition format_date :: "'dt timelib \<Rightarrow> 'dt date_arg \<Rightarrow> string" where
  "format_date lib in_date =
     (case in_date of
        DateObj d \<Rightarrow> strftime_iso lib d
      | DateStr s \<Rightarrow>
          (case strptime_ymd lib s of
             Some d \<Rightarrow> strftime_iso lib d
           | None \<Rightarrow> s))"

text \<open>
  The default value \<open>end_date=datetime.now()\<close> of \<open>query\<close> (line 140) and of
  \<open>format_query\<close> (line 163) is an expression in a \<open>def\<close> header: Python
  evaluates it when the \<open>def\<close> statement runs, that is while the class body
  is executed at import. \<open>class_definition t1 t2\<close> is the state this leaves
  behind when the clock reads \<open>t1\<close> at the first header and \<open>t2\<close> at the
  second.
\<close>

record 'dt defaults =
  query_end_date :: "'dt"
  format_query_end_date :: "'dt"

definition class_definition :: "'dt \<Rightarrow> 'dt \<Rightarrow> 'dt defaults" where
  "class_definition t1 t2 = \<lparr>query_end_date = t1, format_query_end_date = t2\<rparr>"

text \<open>
  A keyword dictionary is an association list in insertion order; a Python
  dict has no repeated key, so a well-formed one has distinct keys.
\<close>

type_synonym kwdict = "(string \<times> string) list"

definition dict_keys :: "kwdict \<Rightarrow> string list" where
  "dict_keys kws = map fst kws"

definition dict_getitem :: "kwdict \<Rightarrow> string \<Rightarrow> exn + string" where
  "dict_getitem kws kw =
     (case map_of kws kw of None \<Rightarrow> Inl (KeyError kw) | Some v \<Rightarrow> Inr v)"

definition filter_clause :: "string \<Rightarrow> string \<Rightarrow> string" where
  "filter_clause kw v = '' AND ('' @ kw @ '':'' @ v @ '')''"

text \<open>The loop \<open>for kw in sorted(keywords.keys()): filters += ...\<close>.\<close>

fun filters_loop :: "kwdict \<Rightarrow> string list \<Rightarrow> string \<Rightarrow> exn + string" where
  "filters_loop kws [] filters = Inr filters"
| "filters_loop kws (kw # rest) filters =
     (case dict_getitem kws kw of
        Inl e \<Rightarrow> Inl e
      | Inr v \<Rightarrow> filters_loop kws rest (filters @ filter_clause kw v))"

definition acquisition_clause :: "'dt timelib \<Rightarrow> 'dt date_arg \<Rightarrow> 'dt date_arg \<Rightarrow> string" where
  "acquisition_clause lib initial_date end_date =
     ''(beginPosition:['' @ format_date lib initial_date @ '' TO '' @
     format_date lib end_date @ ''])''"

definition area_clause :: "string option \<Rightarrow> string" where
  "area_clause area =
     (case area of
        Some a \<Rightarrow> '' AND (footprint:\"Intersects(POLYGON(('' @ a @ '')))\")''
      | None \<Rightarrow> [])"

definition point_clause :: "string option \<Rightarrow> string" where
  "point_clause point =
     (case point of
        Some p \<Rightarrow> '' AND (footprint:\"intersects('' @ p @ '')\")''
      | None \<Rightarrow> [])"

text \<open>
  \<open>initial_date - timedelta\<close> is defined on date and datetime objects only:
  on a string Python raises TypeError.
\<close>

definition default_initial_date :: "'dt timelib \<Rightarrow> 'dt date_arg \<Rightarrow> exn + 'dt date_arg" where
  "default_initial_date lib end_date =
     (case end_date of
        DateObj d \<Rightarrow> Inr (DateObj (minus_24h lib d))
      | DateStr s \<Rightarrow> Inl TypeError)"

text \<open>
  \<open>format_query\<close>. \<open>now\<close> is the reading of the clock when the call is made;
  \<open>end_date = None\<close> is a call that omits the argument, \<open>initial_date = None\<close>
  one that omits it or passes Python's None.
\<close>

definition format_query ::
  "'dt timelib \<Rightarrow> 'dt defaults \<Rightarrow> 'dt \<Rightarrow> string option \<Rightarrow> string option \<Rightarrow>
   'dt date_arg option \<Rightarrow> 'dt date_arg option \<Rightarrow> kwdict \<Rightarrow> exn + string" where
  "format_query lib defs now area point initial_date end_date kws =
     (if \<not> (area \<noteq> None \<or> point \<noteq> None)
      then Inl (AssertionError ''Either an area or a point must be given.'')
      else
        let end_date' = (case end_date of
                           None \<Rightarrow> DateObj (format_query_end_date defs)
                         | Some e \<Rightarrow> e)
        in case (case initial_date of
                   None \<Rightarrow> default_initial_date lib end_date'
                 | Some i \<Rightarrow> Inr i) of
             Inl e \<Rightarrow> Inl e
           | Inr initial_date' \<Rightarrow>
               (case filters_loop kws (sort (dict_keys kws)) [] of
                  Inl e \<Rightarrow> Inl e
                | Inr filters \<Rightarrow>
                    Inr (concat [acquisition_clause lib initial_date' end_date',
                                 area_clause area, point_clause point, filters])))"

section \<open>The state of the client and of its surroundings\<close>

text \<open>
  A response of the requests library: \<open>status_code\<close>, the result of
  \<open>response.json()\<close> (\<open>None\<close> when it raises ValueError) and the body, which
  stands for both \<open>response.text\<close> and \<open>response.content\<close>.
\<close>

record response =
  status_code :: nat
  body_json :: "json option"
  body :: string

text \<open>The dict that \<open>get_product_info\<close> returns (keys id, title, size, md5, date, footprint, url).\<close>

record product_info =
  info_id :: string
  info_title :: string
  info_size :: int
  info_md5 :: string
  info_date :: string
  info_footprint :: string
  info_url :: string

text \<open>
  What the code does to the outside, in order: lines printed (the format
  string with its arguments; \<open>AFormat\<close> is an argument that is itself a
  formatted string), \<open>traceback.print_exc()\<close>, \<open>sleep\<close>, the tqdm
  progress bar of \<open>md5_compare\<close>, the requests sent, files removed and the
  transfers started. \<open>Transfer url path n\<close> is a call
  \<open>homura.download(url, path=path, ...)\<close> made when the file at \<open>path\<close> had
  \<open>n\<close> bytes (\<open>None\<close>: no file): homura continues an incomplete file.
\<close>

datatype pyarg =
    AStr string
  | AInt int
  | AJson json
  | AExn exn
  | AFormat string "pyarg list"

datatype event =
    Print string "pyarg list"
  | PrintErr string "pyarg list"
  | PrintExc exn
  | Sleep nat
  | Progress string nat
  | Post string
  | GetProductInfo json
  | Remove string
  | Transfer string string "nat option"

text \<open>
  The fields of the \<open>SentinelAPI\<close> object (\<open>last_query\<close>, \<open>content\<close>,
  \<open>products\<close>; \<open>None\<close> is Python's None), the regular files on disk, the
  number of network requests made so far and the trace of events.
\<close>

record world =
  files :: "string \<Rightarrow> string option"
  last_query :: "string option"
  content :: "response option"
  products :: "json option"
  net_calls :: nat
  trace :: "event list"

text \<open>
  What lies outside the module. The server's answers are indexed by the
  number of requests made before: \<open>post_search k q\<close> is what
  \<open>requests.post(self.url, dict(q=q), ...)\<close> returns or raises,
  \<open>product_info_reply k id\<close> what \<open>get_product_info(id)\<close> returns or raises
  (lines 282 to 316, whose parsing is not modelled), and
  \<open>homura_reply k url old\<close> what \<open>homura.download\<close> does when the file holds
  \<open>old\<close>: the exception it raises, if any, and the file it leaves.
  \<open>md5_hexdigest\<close> is \<open>hashlib.md5(data).hexdigest()\<close>, \<open>html2text\<close> is
  \<open>HTML2Text().handle\<close> (\<open>None\<close> when it raises) and \<open>pycurl_version\<close> is
  \<open>pycurl.version\<close>.
\<close>

record env =
  post_search :: "nat \<Rightarrow> string \<Rightarrow> exn + response"
  html2text :: "string \<Rightarrow> string option"
  product_info_reply :: "nat \<Rightarrow> json \<Rightarrow> exn + product_info"
  homura_reply :: "nat \<Rightarrow> string \<Rightarrow> string option \<Rightarrow> exn option \<times> string option"
  md5_hexdigest :: "string \<Rightarrow> string"
  pycurl_version :: string

definition emit :: "event list \<Rightarrow> world \<Rightarrow> world" where
  "emit evs w = w\<lparr>trace := trace w @ evs\<rparr>"

section \<open>\_check\_scihub\_response, query\_raw and query\<close>

definition default_msg :: json where
  "default_msg = JStr ''API response not valid. JSON decoding failed.''"

text \<open>
  The inner \<open>try\<close> of \<open>_check_scihub_response\<close>: \<open>msg\<close> and \<open>code\<close> as the
  two assignments leave them, and whether one of them raised.
\<close>

definition error_envelope :: "response \<Rightarrow> json \<times> json \<times> bool" where
  "error_envelope r =
     (case body_json r of
        None \<Rightarrow> (default_msg, JNull, True)
      | Some j \<Rightarrow>
          (case getitem j ''error'' of
             Inl _ \<Rightarrow> (default_msg, JNull, True)
           | Inr err \<Rightarrow>
               (case getitem err ''message'' of
                  Inl _ \<Rightarrow> (default_msg, JNull, True)
                | Inr m \<Rightarrow>
                    (case getitem m ''value'' of
                       Inl _ \<Rightarrow> (default_msg, JNull, True)
                     | Inr v \<Rightarrow>
                         (case getitem err ''code'' of
                            Inl _ \<Rightarrow> (v, JNull, True)
                          | Inr c \<Rightarrow> (v, c, False))))))"

definition check_scihub_response :: "env \<Rightarrow> response \<Rightarrow> exn option" where
  "check_scihub_response env r =
     (if (400 \<le> status_code r \<and> status_code r < 600) \<or> body_json r = None
      then
        (case error_envelope r of
           (msg, code, raised) \<Rightarrow>
             let msg' =
               (if raised \<and> \<not> startswith (rstrip (body r)) ''{''
                then (case html2text env (body r) of
                        Some t \<Rightarrow> JStr (strip t)
                      | None \<Rightarrow> msg)
                else msg)
             in Some (SentinelAPIError (status_code r) code msg' (body r)))
      else None)"

definition query_raw :: "env \<Rightarrow> string \<Rightarrow> world \<Rightarrow> exn option \<times> world" where
  "query_raw env q w =
     (let w1 = (emit [Post q] w)\<lparr>last_query := Some q, net_calls := Suc (net_calls w)\<rparr>
      in case post_search env (net_calls w) q of
           Inl e \<Rightarrow> (Some e, w1)
         | Inr r \<Rightarrow> (check_scihub_response env r, w1\<lparr>content := Some r\<rparr>))"

text \<open>
  \<open>query\<close> passes its own \<open>end_date\<close> on to \<open>format_query\<close>: when the caller
  omits it, that is the default of \<open>query\<close>.
\<close>

definition query ::
  "env \<Rightarrow> 'dt timelib \<Rightarrow> 'dt defaults \<Rightarrow> 'dt \<Rightarrow> string option \<Rightarrow> string option \<Rightarrow>
   'dt date_arg option \<Rightarrow> 'dt date_arg option \<Rightarrow> kwdict \<Rightarrow> world \<Rightarrow> exn option \<times> world" where
  "query env lib defs now area point initial_date end_date kws w =
     (let end_date' = (case end_date of
                         None \<Rightarrow> DateObj (query_end_date defs)
                       | Some e \<Rightarrow> e)
      in case format_query lib defs now area point initial_date (Some end_date') kws of
           Inl e \<Rightarrow> (Some e, w)
         | Inr q \<Rightarrow> query_raw env q w)"

section \<open>get\_products\<close>

definition is_dict :: "json \<Rightarrow> bool" where
  "is_dict v = (case v of JObj _ \<Rightarrow> True | _ \<Rightarrow> False)"

text \<open>
  The two handlers of \<open>get_products\<close>: KeyError prints and returns the empty
  list; any other exception of the subscriptions (a TypeError) goes through.
\<close>

definition get_products_except :: "exn \<Rightarrow> world \<Rightarrow> (exn + json) \<times> world" where
  "get_products_except e w =
     (case e of
        KeyError _ \<Rightarrow> (Inr (JArr []), emit [Print ''No products found in this query.'' []] w)
      | _ \<Rightarrow> (Inl e, w))"

definition get_products :: "world \<Rightarrow> (exn + json) \<times> world" where
  "get_products w =
     (case content w of
        None \<Rightarrow> (Inl (OtherException ''AttributeError''), w)
      | Some r \<Rightarrow>
          (case body_json r of
             None \<Rightarrow>
               (Inl (SentinelAPIError (status_code r) JNull default_msg (body r)), w)
           | Some j \<Rightarrow>
               (case getitem j ''feed'' of
                  Inl e \<Rightarrow> get_products_except e w
                | Inr feed \<Rightarrow>
                    (case getitem feed ''entry'' of
                       Inl e \<Rightarrow> get_products_except e w
                     | Inr entry \<Rightarrow>
                         let w' = w\<lparr>products := Some entry\<rparr>
                         in if is_dict entry then (Inr (JArr [entry]), w')
                            else (Inr entry, w')))))"

section \<open>md5\_compare\<close>

text \<open>
  The reading loop of \<open>md5_compare\<close>: \<open>f.read(block_size)\<close> returns the next
  \<open>block_size\<close> bytes, the loop ends at the first empty block, and \<open>fed\<close> is
  what \<open>md5.update\<close> has received so far.
\<close>

function read_blocks :: "nat \<Rightarrow> string \<Rightarrow> string \<Rightarrow> string" where
  "read_blocks block_size rest fed =
     (let block_data = take block_size rest
      in if block_data = [] then fed
         else read_blocks block_size (drop block_size rest) (fed @ block_data))"
  by pat_completeness auto
termination
  by (relation "measure (\<lambda>(block_size, rest, fed). length rest)") auto

declare read_blocks.simps [simp del]

text \<open>\<open>open\<close> raises IOError when there is no file at the path.\<close>

definition md5_compare :: "env \<Rightarrow> string \<Rightarrow> string \<Rightarrow> nat \<Rightarrow> world \<Rightarrow> (exn + bool) \<times> world" where
  "md5_compare env file_path checksum block_size w =
     (case files w file_path of
        None \<Rightarrow> (Inl IOError, w)
      | Some data \<Rightarrow>
          (Inr (lower (md5_hexdigest env (read_blocks block_size data [])) = lower checksum),
           emit [Progress ''MD5 checksumming'' (length data)] w))"

section \<open>download\<close>

definition path_exists :: "world \<Rightarrow> string \<Rightarrow> bool" where
  "path_exists w path = (files w path \<noteq> None)"

definition getsize :: "world \<Rightarrow> string \<Rightarrow> int" where
  "getsize w path = (case files w path of Some data \<Rightarrow> int (length data) | None \<Rightarrow> 0)"

definition remove :: "string \<Rightarrow> world \<Rightarrow> world" where
  "remove path w = (emit [Remove path] w)\<lparr>files := (files w)(path := None)\<rparr>"

definition get_product_info :: "env \<Rightarrow> json \<Rightarrow> world \<Rightarrow> (exn + product_info) \<times> world" where
  "get_product_info env uuid w =
     (product_info_reply env (net_calls w) uuid,
      (emit [GetProductInfo uuid] w)\<lparr>net_calls := Suc (net_calls w)\<rparr>)"

definition homura_download :: "env \<Rightarrow> string \<Rightarrow> string \<Rightarrow> world \<Rightarrow> exn option \<times> world" where
  "homura_download env url path w =
     (case homura_reply env (net_calls w) url (files w path) of
        (raised, file') \<Rightarrow>
          (raised,
           (emit [Transfer url path (map_option length (files w path))] w)
             \<lparr>files := (files w)(path := file'), net_calls := Suc (net_calls w)\<rparr>))"

definition is_SentinelAPIError :: "exn \<Rightarrow> bool" where
  "is_SentinelAPIError e = (case e of SentinelAPIError _ _ _ _ \<Rightarrow> True | _ \<Rightarrow> False)"

text \<open>
  \<open>SentinelAPIError.__str__\<close> (lines 46 to 49):
  \<open>'\n' in self.msg\<close> and the concatenation with \<open>self.msg\<close> need a string,
  and raise TypeError on any other value, None included. The function is
  only applied to a SentinelAPIError.
\<close>

definition api_error_str :: "exn \<Rightarrow> exn + pyarg" where
  "api_error_str e =
     (case e of
        SentinelAPIError http_status code msg response_body \<Rightarrow>
          (case msg of
             JStr s \<Rightarrow>
               Inr (AFormat ''(HTTP status: {0}, code: {1}) {2}''
                      [AInt (int http_status), AJson code,
                       AStr ((if CHR 0x0A \<in> set s then [CHR 0x0A] else []) @ s)])
           | _ \<Rightarrow> Inl TypeError)
      | _ \<Rightarrow> Inr (AExn e))"

text \<open>
  Lines 356 to 362 of \<open>download\<close>: the loop
  \<open>while product_info is None: try: ... except SentinelAPIError as e: print(...str(e)); sleep(60)\<close>.
  An exception raised in the handler leaves the loop. The loop may run
  forever: the value \<open>None\<close> is a call that never returns.
\<close>

partial_function (option) product_info_loop ::
  "env \<Rightarrow> json \<Rightarrow> world \<Rightarrow> ((exn + product_info) \<times> world) option" where
  "product_info_loop env uuid w =
     (case get_product_info env uuid w of
        (Inr product_info, w') \<Rightarrow> Some (Inr product_info, w')
      | (Inl e, w') \<Rightarrow>
          if is_SentinelAPIError e
          then (case api_error_str e of
                  Inl raised \<Rightarrow> Some (Inl raised, w')
                | Inr text \<Rightarrow>
                    product_info_loop env uuid
                      (emit [Print ''Invalid API response:\<newline>{}\<newline>Trying again in 1 minute.'' [text],
                             Sleep 60] w'))
          else Some (Inl e, w'))"

text \<open>A reply of the metadata request that is a SentinelAPIError whose message is a string.\<close>

definition string_api_error :: "exn + product_info \<Rightarrow> bool" where
  "string_api_error reply =
     (case reply of
        Inl (SentinelAPIError http_status code (JStr s) response_body) \<Rightarrow> True
      | _ \<Rightarrow> False)"

text \<open>
  Lines 371 to 377: \<open>Inr True\<close> when \<open>download\<close> returns at line 374,
  \<open>Inr False\<close> when it goes on to the transfer.
\<close>

definition check_existing_file ::
  "env \<Rightarrow> product_info \<Rightarrow> string \<Rightarrow> bool \<Rightarrow> world \<Rightarrow> (exn + bool) \<times> world" where
  "check_existing_file env product_info path check_existing w =
     (if path_exists w path \<and> getsize w path = info_size product_info
      then
        (if \<not> check_existing
         then (Inr True, emit [Print ''%s was already downloaded.'' [AStr path]] w)
         else
           (case md5_compare env path (info_md5 product_info) (2 ^ 13) w of
              (Inl e, w') \<Rightarrow> (Inl e, w')
            | (Inr True, w') \<Rightarrow>
                (Inr True, emit [Print ''%s was already downloaded.'' [AStr path]] w')
            | (Inr False, w') \<Rightarrow>
                (Inr False,
                 remove path
                   (emit [Print ''%s was already downloaded but is corrupt: checksums do not match. Re-downloading.''
                            [AStr path]] w'))))
      else (Inr False, w))"

text \<open>Lines 379 to 383; \<open>and\<close> evaluates its operands from the left and stops at the first false one.\<close>

definition pycurl_workaround :: "env \<Rightarrow> string \<Rightarrow> world \<Rightarrow> exn option \<times> world" where
  "pycurl_workaround env path w =
     (if path_exists w path \<and> getsize w path \<ge> 2 ^ 31
      then
        (case split_first (pycurl_version env) of
           Inl e \<Rightarrow> (Some e, w)
         | Inr v \<Rightarrow>
             if lower v \<le> ''pycurl/7.43.0'' then (None, remove path w) else (None, w))
      else (None, w))"

text \<open>Lines 385 to 391: the transfer, then the check asked for by \<open>checksum=True\<close>.\<close>

definition transfer_and_verify ::
  "env \<Rightarrow> bool \<Rightarrow> product_info \<Rightarrow> string \<Rightarrow> world \<Rightarrow>
   (exn + string \<times> product_info) \<times> world" where
  "transfer_and_verify env checksum product_info path w =
     (case homura_download env (info_url product_info) path w of
        (Some e, w') \<Rightarrow> (Inl e, w')
      | (None, w') \<Rightarrow>
          if checksum
          then
            (case md5_compare env path (info_md5 product_info) (2 ^ 13) w' of
               (Inl e, w'') \<Rightarrow> (Inl e, w'')
             | (Inr ok, w'') \<Rightarrow>
                 if \<not> ok
                 then (Inl (InvalidChecksumError ''File corrupt: checksums do not match''), w'')
                 else (Inr (path, product_info), w''))
          else (Inr (path, product_info), w'))"

text \<open>
  Lines 364 to 391 of \<open>download\<close>, once \<open>product_info\<close> is known. The keyword
  arguments (\<open>_fillin_cainfo\<close>) only reach \<open>homura.download\<close> and are left out.
\<close>

definition download_file ::
  "env \<Rightarrow> json \<Rightarrow> string \<Rightarrow> bool \<Rightarrow> bool \<Rightarrow> product_info \<Rightarrow> world \<Rightarrow>
   (exn + string \<times> product_info) \<times> world" where
  "download_file env uuid directory_path checksum check_existing product_info w =
     (let path = join directory_path (info_title product_info @ ''.zip'');
          w1 = emit [Print ''Downloading %s to %s'' [AJson uuid, AStr path]] w
      in case check_existing_file env product_info path check_existing w1 of
           (Inl e, w2) \<Rightarrow> (Inl e, w2)
         | (Inr True, w2) \<Rightarrow> (Inr (path, product_info), w2)
         | (Inr False, w2) \<Rightarrow>
             (case pycurl_workaround env path w2 of
                (Some e, w3) \<Rightarrow> (Inl e, w3)
              | (None, w3) \<Rightarrow> transfer_and_verify env checksum product_info path w3))"

definition download ::
  "env \<Rightarrow> json \<Rightarrow> string \<Rightarrow> bool \<Rightarrow> bool \<Rightarrow> world \<Rightarrow>
   ((exn + string \<times> product_info) \<times> world) option" where
  "download env uuid directory_path checksum check_existing w =
     (case product_info_loop env uuid w of
        None \<Rightarrow> None
      | Some (Inl e, w') \<Rightarrow> Some (Inl e, w')
      | Some (Inr product_info, w') \<Rightarrow>
          Some (download_file env uuid directory_path checksum check_existing product_info w'))"

section \<open>download\_all\<close>

text \<open>
  \<open>download_all\<close> calls \<open>self.download\<close>, which a test may replace: the model
  takes the downloader as an argument. \<open>None\<close> is a call that never returns.
\<close>

type_synonym downloader =
  "json \<Rightarrow> string \<Rightarrow> bool \<Rightarrow> bool \<Rightarrow> world \<Rightarrow> ((exn + string \<times> product_info) \<times> world) option"

text \<open>The returned dict: a key is absent, or maps to None, or maps to a product info.\<close>

type_synonym result = "string \<Rightarrow> product_info option option"

text \<open>
  A record of what the loop did, kept beside the state: \<open>Called i uuid\<close> is a
  call \<open>self.download(uuid, ...)\<close> made for the product of index \<open>i\<close>, and
  \<open>Stored i path info\<close> the assignment \<open>result[path] = product_info\<close> that
  ends its turn.
\<close>

datatype step = Called nat json | Stored nat string "product_info option"

text \<open>The classes of the first \<open>except\<close> clause, which re-raises.\<close>

fun fatal :: "exn \<Rightarrow> bool" where
  "fatal KeyboardInterrupt = True"
| "fatal SystemExit = True"
| "fatal SystemError = True"
| "fatal MemoryError = True"
| "fatal _ = False"

text \<open>The second and third \<open>except\<close> clauses.\<close>

definition handle_failure :: "string \<Rightarrow> exn \<Rightarrow> world \<Rightarrow> world" where
  "handle_failure title e w =
     (case e of
        InvalidChecksumError _ \<Rightarrow>
          emit [Print ''Invalid checksum. The downloaded file is corrupted.'' []] w
      | _ \<Rightarrow>
          emit [PrintErr ''There was an error downloading %s'' [AStr title], PrintExc e] w)"

text \<open>
  The loop \<open>while not download_successful and remaining_attempts > 0\<close> for
  one product, over its variables \<open>path\<close>, \<open>product_info\<close>,
  \<open>download_successful\<close> and \<open>remaining_attempts\<close>. \<open>product['id']\<close> is
  evaluated inside the \<open>try\<close>.
\<close>

function attempts ::
  "downloader \<Rightarrow> nat \<Rightarrow> json \<Rightarrow> string \<Rightarrow> string \<Rightarrow> bool \<Rightarrow> bool \<Rightarrow>
   string \<Rightarrow> product_info option \<Rightarrow> bool \<Rightarrow> int \<Rightarrow> world \<Rightarrow> step list \<Rightarrow>
   ((exn + string \<times> product_info option) \<times> world \<times> step list) option" where
  "attempts dl i product title directory_path checksum check_existing
            path product_info download_successful remaining_attempts w log =
     (if \<not> download_successful \<and> remaining_attempts > 0
      then
        (case getitem product ''id'' of
           Inl e \<Rightarrow>
             if fatal e then Some (Inl e, w, log)
             else attempts dl i product title directory_path checksum check_existing
                    path product_info download_successful (remaining_attempts - 1)
                    (handle_failure title e w) log
         | Inr uuid \<Rightarrow>
             (case dl uuid directory_path checksum check_existing w of
                None \<Rightarrow> None
              | Some (Inr (path', product_info'), w') \<Rightarrow>
                  attempts dl i product title directory_path checksum check_existing
                    path' (Some product_info') True (remaining_attempts - 1)
                    w' (log @ [Called i uuid])
              | Some (Inl e, w') \<Rightarrow>
                  if fatal e then Some (Inl e, w', log @ [Called i uuid])
                  else attempts dl i product title directory_path checksum check_existing
                         path product_info download_successful (remaining_attempts - 1)
                         (handle_failure title e w') (log @ [Called i uuid])))
      else Some (Inr (path, product_info), w, log))"
  by pat_completeness auto
termination
  by (relation "measure (\<lambda>(dl, i, product, title, directory_path, checksum, check_existing,
        path, product_info, download_successful, remaining_attempts, w, log).
        nat remaining_attempts)") auto

declare attempts.simps [simp del]

text \<open>\<open>product['title'] + '.zip'\<close> needs a dict whose title is a string.\<close>

definition product_title :: "json \<Rightarrow> exn + string" where
  "product_title product =
     (case getitem product ''title'' of
        Inl e \<Rightarrow> Inl e
      | Inr (JStr title) \<Rightarrow> Inr title
      | Inr _ \<Rightarrow> Inl TypeError)"

text \<open>The loop \<open>for i, product in enumerate(products)\<close>; \<open>n\<close> is \<open>len(products)\<close>.\<close>

fun download_products ::
  "downloader \<Rightarrow> string \<Rightarrow> int \<Rightarrow> bool \<Rightarrow> bool \<Rightarrow> nat \<Rightarrow> nat \<Rightarrow> json list \<Rightarrow>
   result \<Rightarrow> world \<Rightarrow> step list \<Rightarrow> ((exn + result) \<times> world \<times> step list) option" where
  "download_products dl directory_path max_attempts checksum check_existing n i [] result w log =
     Some (Inr result, w, log)"
| "download_products dl directory_path max_attempts checksum check_existing n i (product # rest)
     result w log =
     (case product_title product of
        Inl e \<Rightarrow> Some (Inl e, w, log)
      | Inr title \<Rightarrow>
          (case attempts dl i product title directory_path checksum check_existing
                  (join directory_path (title @ ''.zip'')) None False max_attempts w log of
             None \<Rightarrow> None
           | Some (Inl e, w', log') \<Rightarrow> Some (Inl e, w', log')
           | Some (Inr (path, product_info), w', log') \<Rightarrow>
               download_products dl directory_path max_attempts checksum check_existing n (Suc i) rest
                 (result(path \<mapsto> product_info))
                 (emit [Print ''{}/{} products downloaded'' [AInt (int i + 1), AInt (int n)]] w')
                 (log' @ [Stored i path product_info])))"

text \<open>
  What \<open>len\<close> and \<open>enumerate\<close> make of the value of \<open>get_products\<close>: the
  items of a list, the characters of a string, the keys of a dict; TypeError
  on anything else.
\<close>

definition as_list :: "json \<Rightarrow> exn + json list" where
  "as_list v =
     (case v of
        JArr items \<Rightarrow> Inr items
      | JStr s \<Rightarrow> Inr (map (\<lambda>c. JStr [c]) s)
      | JObj kvs \<Rightarrow> Inr (map (\<lambda>kv. JStr (fst kv)) kvs)
      | _ \<Rightarrow> Inl TypeError)"

definition download_all ::
  "downloader \<Rightarrow> string \<Rightarrow> int \<Rightarrow> bool \<Rightarrow> bool \<Rightarrow> world \<Rightarrow>
   ((exn + result) \<times> world \<times> step list) option" where
  "download_all dl directory_path max_attempts checksum check_existing w =
     (case get_products w of
        (Inl e, w1) \<Rightarrow> Some (Inl e, w1, [])
      | (Inr found, w1) \<Rightarrow>
          (case as_list found of
             Inl e \<Rightarrow> Some (Inl e, w1, [])
           | Inr ps \<Rightarrow>
               download_products dl directory_path max_attempts checksum check_existing
                 (length ps) 0 ps Map.empty
                 (emit [Print ''Will download %d products'' [AInt (int (length ps))]] w1) []))"

text \<open>
  Reading the record: the calls made for the product of index \<open>k\<close>, the index
  a step belongs to, and the effect of a step on the returned dict.
\<close>

definition calls_for :: "nat \<Rightarrow> step list \<Rightarrow> json list" where
  "calls_for k log =
     concat (map (\<lambda>s. case s of Called j uuid \<Rightarrow> (if j = k then [uuid] else [])
                              | Stored j path info \<Rightarrow> []) log)"

fun step_index :: "step \<Rightarrow> nat" where
  "step_index (Called j uuid) = j"
| "step_index (Stored j path info) = j"

fun store_step :: "step \<Rightarrow> result \<Rightarrow> result" where
  "store_step (Called j uuid) result = result"
| "store_step (Stored j path info) result = result(path \<mapsto> info)"

section \<open>get\_products\_size\<close>

text \<open>
  Python's numbers as \<open>get_products_size\<close> uses them: \<open>size_total\<close> starts as the
  int \<open>0\<close> and is a float after the first addition. The float operations are
  parameters of the model: \<open>float_of_str s\<close> is \<open>float(s)\<close> (\<open>None\<close> when it
  raises ValueError), \<open>float_of_int\<close> the conversion that \<open>/\<close> and \<open>+\<close> apply to
  an int operand, \<open>float_div\<close> and \<open>float_add\<close> are \<open>/\<close> and \<open>+\<close> on two floats,
  \<open>round_float x n\<close> is \<open>round(x, n)\<close> on a float and \<open>round_int i n\<close> is
  \<open>round(i, n)\<close> on an int (an int in Python 3, a float in Python 2).
\<close>

datatype 'f number = PyInt int | PyFloat 'f

record 'f floatlib =
  float_of_str :: "string \<Rightarrow> 'f option"
  float_of_int :: "int \<Rightarrow> 'f"
  float_div :: "'f \<Rightarrow> 'f \<Rightarrow> 'f"
  float_add :: "'f \<Rightarrow> 'f \<Rightarrow> 'f"
  round_float :: "'f \<Rightarrow> int \<Rightarrow> 'f"
  round_int :: "int \<Rightarrow> int \<Rightarrow> 'f number"

text \<open>
  \<open>next(x for x in xs if x["name"] == "size")\<close>: the first element named
  \<open>size\<close>. An exception of \<open>x["name"]\<close> on an earlier element goes through,
  and \<open>next\<close> raises StopIteration when no element is left.
\<close>

fun next_size :: "json list \<Rightarrow> exn + json" where
  "next_size [] = Inl (OtherException ''StopIteration'')"
| "next_size (x # xs) =
     (case getitem x ''name'' of
        Inl e \<Rightarrow> Inl e
      | Inr name \<Rightarrow> if name = JStr ''size'' then Inr x else next_size xs)"

text \<open>Line 216, \<open>next(x for x in product["str"] if x["name"] == "size")["content"]\<close>.\<close>

definition size_content :: "json \<Rightarrow> exn + json" where
  "size_content product =
     (case getitem product ''str'' of
        Inl e \<Rightarrow> Inl e
      | Inr strs \<Rightarrow>
          (case as_list strs of
             Inl e \<Rightarrow> Inl e
           | Inr xs \<Rightarrow>
               (case next_size xs of
                  Inl e \<Rightarrow> Inl e
                | Inr x \<Rightarrow> getitem x ''content'')))"

text \<open>
  Lines 217 to 222: \<open>size_value\<close> as the two \<open>if\<close> statements leave it. Only a
  string has the method \<open>split\<close>; \<open>str\<close> of a string of ASCII characters is
  that string.
\<close>

definition size_in_gb :: "'f floatlib \<Rightarrow> json \<Rightarrow> exn + 'f" where
  "size_in_gb lib size_product =
     (case size_product of
        JStr s \<Rightarrow>
          (case index (split_sep (CHR '' '') s) 0 of
             Inl e \<Rightarrow> Inl e
           | Inr text_value \<Rightarrow>
               (case float_of_str lib text_value of
                  None \<Rightarrow> Inl (OtherException ''ValueError'')
                | Some size_value \<Rightarrow>
                    (case index (split_sep (CHR '' '') s) 1 of
                       Inl e \<Rightarrow> Inl e
                     | Inr size_unit \<Rightarrow>
                         let size_value1 =
                               (if size_unit = ''MB''
                                then float_div lib size_value (float_of_int lib 1024)
                                else size_value);
                             size_value2 =
                               (if size_unit = ''KB''
                                then float_div lib size_value1 (float_of_int lib (1024 * 1024))
                                else size_value1)
                         in Inr size_value2)))
      | _ \<Rightarrow> Inl (OtherException ''AttributeError''))"

text \<open>\<open>size_total += size_value\<close> with a float on the right.\<close>

definition add_float :: "'f floatlib \<Rightarrow> 'f number \<Rightarrow> 'f \<Rightarrow> 'f number" where
  "add_float lib size_total size_value =
     (case size_total of
        PyInt i \<Rightarrow> PyFloat (float_add lib (float_of_int lib i) size_value)
      | PyFloat t \<Rightarrow> PyFloat (float_add lib t size_value))"

definition py_round :: "'f floatlib \<Rightarrow> 'f number \<Rightarrow> int \<Rightarrow> 'f number" where
  "py_round lib v ndigits =
     (case v of
        PyInt i \<Rightarrow> round_int lib i ndigits
      | PyFloat x \<Rightarrow> PyFloat (round_float lib x ndigits))"

text \<open>The loop \<open>for product in self.get_products()\<close>, over \<open>size_total\<close>.\<close>

fun size_loop :: "'f floatlib \<Rightarrow> json list \<Rightarrow> 'f number \<Rightarrow> exn + 'f number" where
  "size_loop lib [] size_total = Inr size_total"
| "size_loop lib (product # rest) size_total =
     (case size_content product of
        Inl e \<Rightarrow> Inl e
      | Inr size_product \<Rightarrow>
          (case size_in_gb lib size_product of
             Inl e \<Rightarrow> Inl e
           | Inr size_value \<Rightarrow> size_loop lib rest (add_float lib size_total size_value)))"

definition get_products_size :: "'f floatlib \<Rightarrow> world \<Rightarrow> (exn + 'f number) \<times> world" where
  "get_products_size lib w =
     (case get_products w of
        (Inl e, w') \<Rightarrow> (Inl e, w')
      | (Inr found, w') \<Rightarrow>
          (case as_list found of
             Inl e \<Rightarrow> (Inl e, w')
           | Inr ps \<Rightarrow>
               (case size_loop lib ps (PyInt 0) of
                  Inl e \<Rightarrow> (Inl e, w')
                | Inr size_total \<Rightarrow> (Inr (py_round lib size_total 2), w'))))"

section \<open>A calendar for the examples\<close>

text \<open>
  An instance of the datetime functions, used to evaluate the model on
  examples: a Gregorian date with a time of day, the rendering of
  \<open>%Y-%m-%dT%H:%M:%SZ\<close> for years of four digits, the reading of eight-digit
  \<open>%Y%m%d\<close> strings, and the day before.
\<close>

record datetime =
  year :: nat
  month :: nat
  day :: nat
  hour :: nat
  minute :: nat
  second :: nat

definition digit :: "nat \<Rightarrow> char" where
  "digit n = ''0123456789'' ! (n mod 10)"

definition pad2 :: "nat \<Rightarrow> string" where
  "pad2 n = [digit (n div 10), digit n]"

definition pad4 :: "nat \<Rightarrow> string" where
  "pad4 n = [digit (n div 1000), digit (n div 100), digit (n div 10), digit n]"

definition is_digit :: "char \<Rightarrow> bool" where
  "is_digit c = (CHR ''0'' \<le> c \<and> c \<le> CHR ''9'')"

definition digit_val :: "char \<Rightarrow> nat" where
  "digit_val c = of_char c - 48"

definition number :: "string \<Rightarrow> nat" where
  "number s = foldl (\<lambda>n c. 10 * n + digit_val c) 0 s"

definition leap :: "nat \<Rightarrow> bool" where
  "leap y = (y mod 4 = 0 \<and> (y mod 100 \<noteq> 0 \<or> y mod 400 = 0))"

definition days_in_month :: "nat \<Rightarrow> nat \<Rightarrow> nat" where
  "days_in_month y m =
     (if m = 2 then (if leap y then 29 else 28)
      else if m \<in> set [4, 6, 9, 11] then 30 else 31)"

definition calendar_strftime :: "datetime \<Rightarrow> string" where
  "calendar_strftime d =
     pad4 (year d) @ ''-'' @ pad2 (month d) @ ''-'' @ pad2 (day d) @ ''T'' @
     pad2 (hour d) @ '':'' @ pad2 (minute d) @ '':'' @ pad2 (second d) @ ''Z''"

definition calendar_strptime :: "string \<Rightarrow> datetime option" where
  "calendar_strptime s =
     (let y = number (take 4 s); m = number (take 2 (drop 4 s)); d = number (drop 6 s)
      in if length s = 8 \<and> list_all is_digit s \<and> 1 \<le> y \<and> 1 \<le> m \<and> m \<le> 12 \<and>
            1 \<le> d \<and> d \<le> days_in_month y m
         then Some \<lparr>year = y, month = m, day = d, hour = 0, minute = 0, second = 0\<rparr>
         else None)"

definition calendar_minus_24h :: "datetime \<Rightarrow> datetime" where
  "calendar_minus_24h d =
     (if 1 < day d then d\<lparr>day := day d - 1\<rparr>
      else if 1 < month d
      then d\<lparr>month := month d - 1, day := days_in_month (year d) (month d - 1)\<rparr>
      else d\<lparr>year := year d - 1, month := 12, day := 31\<rparr>)"

definition calendar :: "datetime timelib" where
  "calendar = \<lparr>strftime_iso = calendar_strftime, strptime_ymd = calendar_strptime,
                minus_24h = calendar_minus_24h\<rparr>"

definition example_import_time :: datetime where
  "example_import_time = \<lparr>year = 2016, month = 3, day = 1, hour = 10, minute = 30, second = 5\<rparr>"

definition example_call_time :: datetime where
  "example_call_time = \<lparr>year = 2016, month = 7, day = 14, hour = 8, minute = 0, second = 0\<rparr>"

definition example_area :: string where
  "example_area = ''0 0,1 1,0 1,0 0''"

section \<open>Examples of the surroundings\<close>

text \<open>The delays of the \<open>sleep\<close> calls in a trace, in seconds.\<close>

definition sleeps :: "event list \<Rightarrow> nat list" where
  "sleeps evs = concat (map (\<lambda>ev. case ev of Sleep s \<Rightarrow> [s] | _ \<Rightarrow> []) evs)"

text \<open>
  A product, a server and a disk for the examples. The server answers the
  first \<open>outage\<close> metadata requests with status 503 and then with the
  product's metadata; every transfer leaves the file \<open>served\<close>.
  \<open>example_digest\<close> stands in for MD5: it tells the files of the examples
  apart.
\<close>

definition example_uuid :: json where
  "example_uuid = JStr ''a8dd0cfd-613e-45ce-868c-d79177b916ed''"

definition example_info :: product_info where
  "example_info =
     \<lparr>info_id = ''a8dd0cfd-613e-45ce-868c-d79177b916ed'',
      info_title = ''S1A_EW_GRDH_1SDH'',
      info_size = 4,
      info_md5 = ''ABC123'',
      info_date = ''2014-10-03T00:38:40Z'',
      info_footprint = ''0 0,1 1,0 1,0 0'',
      info_url = ''https://scihub.copernicus.eu/apihub/odata/v1/Products(a8dd0cfd)/$value''\<rparr>"

definition example_path :: string where
  "example_path = ''./S1A_EW_GRDH_1SDH.zip''"

definition example_digest :: "string \<Rightarrow> string" where
  "example_digest data = (if data = ''good'' then ''abc123'' else ''ffffff'')"

definition example_env_of :: "(nat \<Rightarrow> json \<Rightarrow> exn + product_info) \<Rightarrow> env" where
  "example_env_of replies =
     \<lparr>post_search = (\<lambda>k q. Inl (OtherException ''ConnectionError'')),
      html2text = (\<lambda>s. None),
      product_info_reply = replies,
      homura_reply = (\<lambda>k url old. (None, Some ''good'')),
      md5_hexdigest = example_digest,
      pycurl_version = ''PycURL/7.43.0 libcurl/7.47.0''\<rparr>"

definition example_env :: "nat \<Rightarrow> string \<Rightarrow> string \<Rightarrow> env" where
  "example_env outage version served =
     (example_env_of
        (\<lambda>k uuid. if k < outage
                  then Inl (SentinelAPIError 503 JNull default_msg ''Service Unavailable'')
                  else Inr example_info))
     \<lparr>homura_reply := (\<lambda>k url old. (None, Some served)), pycurl_version := version\<rparr>"

text \<open>
  An answer of status 500 whose error envelope has a null message, and the
  reply of \<open>get_product_info\<close> to a response: the exception of
  \<open>_check_scihub_response\<close>, or the metadata when it raises none.
\<close>

definition null_message_response :: response where
  "null_message_response =
     \<lparr>status_code = 500,
      body_json = Some (JObj [(''error'', JObj [(''code'', JNull),
                                               (''message'', JObj [(''lang'', JStr ''en''),
                                                                   (''value'', JNull)])])]),
      body = ''{\"error\": {\"code\": null, \"message\": {\"lang\": \"en\", \"value\": null}}}''\<rparr>"

definition checked_reply :: "response \<Rightarrow> exn + product_info" where
  "checked_reply r =
     (case check_scihub_response (example_env_of (\<lambda>k uuid. Inr example_info)) r of
        Some e \<Rightarrow> Inl e
      | None \<Rightarrow> Inr example_info)"

definition example_world :: "(string \<Rightarrow> string option) \<Rightarrow> world" where
  "example_world fs =
     \<lparr>files = fs, last_query = None, content = None, products = None,
      net_calls = 0, trace = []\<rparr>"

text \<open>
  The state after a search whose response decodes to a dict with the given
  \<open>feed\<close>. The body text is left empty: \<open>get_products\<close> reads the decoded
  document only.
\<close>

definition example_response :: "json \<Rightarrow> response" where
  "example_response feed =
     \<lparr>status_code = 200, body_json = Some (JObj [(''feed'', feed)]), body = []\<rparr>"

definition example_search :: "json \<Rightarrow> world" where
  "example_search feed = (example_world Map.empty)\<lparr>content := Some (example_response feed)\<rparr>"

text \<open>A catalog that answers every search with an empty feed.\<close>

definition example_catalog :: env where
  "example_catalog =
     (example_env_of (\<lambda>k uuid. Inr example_info))
     \<lparr>post_search := (\<lambda>k q. Inr (example_response (JObj [])))\<rparr>"

text \<open>
  A stand-in for \<open>self.download\<close>, as a test would install it: the product
  \<open>a\<close> cannot be downloaded (a transport error at every call), the product
  \<open>k\<close> is interrupted from the keyboard, and any other product is
  downloaded at once. \<open>example_found entries\<close> is the state after a search
  that found \<open>entries\<close>.
\<close>

definition flaky_download :: downloader where
  "flaky_download uuid directory_path checksum check_existing w =
     (if uuid = JStr ''a'' then Some (Inl (OtherException ''ConnectionError''), w)
      else if uuid = JStr ''k'' then Some (Inl KeyboardInterrupt, w)
      else Some (Inr (join directory_path (info_title example_info @ ''.zip''), example_info), w))"

definition example_entry :: "string \<Rightarrow> string \<Rightarrow> json" where
  "example_entry title uuid = JObj [(''title'', JStr title), (''id'', JStr uuid)]"

definition example_found :: "json list \<Rightarrow> world" where
  "example_found entries = example_search (JObj [(''entry'', JArr entries)])"

text \<open>
  The float operations left uninterpreted, for the examples: a float is the
  expression that computes it. \<open>float\<close> reads unsigned decimal literals only,
  and \<open>round\<close> of an int is the int, as in Python 3. \<open>sized_entry s\<close> is a
  catalog entry whose size is reported as \<open>s\<close>.
\<close>

datatype float_expr =
    FloatOfStr string
  | FloatOfInt int
  | Div float_expr float_expr
  | Add float_expr float_expr
  | Round float_expr int

definition symbolic_floats :: "float_expr floatlib" where
  "symbolic_floats =
     \<lparr>float_of_str = (\<lambda>s. if s \<noteq> [] \<and> list_all (\<lambda>c. is_digit c \<or> c = CHR ''.'') s
                           then Some (FloatOfStr s) else None),
      float_of_int = FloatOfInt,
      float_div = Div,
      float_add = Add,
      round_float = Round,
      round_int = (\<lambda>i ndigits. PyInt i)\<rparr>"

definition sized_entry :: "string \<Rightarrow> json" where
  "sized_entry s =
     JObj [(''title'', JStr ''S1A_EW_GRDH_1SDH''),
           (''id'', JStr ''a8dd0cfd-613e-45ce-868c-d79177b916ed''),
           (''str'', JArr [JObj [(''name'', JStr ''format''), (''content'', JStr ''SAFE'')],
                           JObj [(''name'', JStr ''size''), (''content'', JStr s)],
                           JObj [(''name'', JStr ''producttype''), (''content'', JStr ''GRD'')]])]"

text \<open>A partial file of 2 GiB, of a product of 3 GiB.\<close>

definition big_partial :: string where
  "big_partial = replicate (2 ^ 31) (CHR 0x00)"

definition big_info :: product_info where
  "big_info = example_info\<lparr>info_size := 3 * 2 ^ 30\<rparr>"

section \<open>The version comparison as the specification words it\<close>

text \<open>
  Section 9 of the specification asks for "a parsed semantic version compared
  numerically, not a lexicographic string compare": the numbers after the
  slash of \<open>pycurl/7.43.0\<close>, compared as a list of numbers.
\<close>

fun fields :: "char \<Rightarrow> string \<Rightarrow> string list" where
  "fields sep [] = [[]]"
| "fields sep (c # cs) =
     (if c = sep then [] # fields sep cs
      else (case fields sep cs of f # fs \<Rightarrow> (c # f) # fs | [] \<Rightarrow> [[c]]))"

definition spec_version_numbers :: "string \<Rightarrow> nat list" where
  "spec_version_numbers v =
     map number (fields (CHR ''.'') (drop 1 (dropWhile (\<lambda>c. c \<noteq> CHR ''/'') v)))"

definition spec_version_at_most :: "string \<Rightarrow> nat list \<Rightarrow> bool" where
  "spec_version_at_most v bound = (spec_version_numbers v \<le> bound)"

section \<open>Evaluating the examples\<close>

lemmas cal_defs = calendar_def calendar_strftime_def calendar_strptime_def calendar_minus_24h_def
  days_in_month_def leap_def number_def digit_val_def is_digit_def pad2_def pad4_def digit_def

section \<open>format\_query: the order of the clauses\<close>

lemma filters_loop_pairs:
  "distinct (map fst kws) \<Longrightarrow> set ps \<subseteq> set kws \<Longrightarrow>
   filters_loop kws (map fst ps) acc =
     Inr (acc @ concat (map (\<lambda>(kw, v). filter_clause kw v) ps))"
proof (induction ps arbitrary: acc)
  case Nil
  then show ?case by simp
next
  case (Cons p ps)
  obtain kw v where p: "p = (kw, v)" by (cases p)
  from Cons.prems p have "map_of kws kw = Some v" by simp
  then have "dict_getitem kws kw = Inr v" by (simp add: dict_getitem_def)
  with Cons p show ?case by simp
qed

lemma insort_map_fst: "insort (fst p) (map fst ps) = map fst (insort_key fst p ps)"
  by (induction ps) simp_all

lemma sort_keys_pairs: "sort (map fst kws) = map fst (sort_key fst kws)"
  by (induction kws) (simp_all add: insort_map_fst)

lemma filters_sorted_pairs:
  assumes "distinct (map fst kws)"
  shows "filters_loop kws (sort (dict_keys kws)) [] =
     Inr (concat (map (\<lambda>(kw, v). filter_clause kw v) (sort_key fst kws)))"
  using filters_loop_pairs [OF assms, of "sort_key fst kws" "[]"]
  by (simp add: dict_keys_def sort_keys_pairs)

lemma same_dict:
  assumes "distinct (map fst kws1)" "distinct (map fst kws2)" "set kws1 = set kws2"
  shows "map_of kws1 = map_of kws2" "sort (dict_keys kws1) = sort (dict_keys kws2)"
proof -
  show "map_of kws1 = map_of kws2"
    using assms by (simp add: map_of_inject_set)
  have "set (map fst kws1) = set (map fst kws2)"
    using assms(3) by simp
  then show "sort (dict_keys kws1) = sort (dict_keys kws2)"
    unfolding dict_keys_def using assms(1,2)
    by (intro sorted_distinct_set_unique) simp_all
qed

lemma filters_loop_cong:
  "map_of kws1 = map_of kws2 \<Longrightarrow> filters_loop kws1 ks acc = filters_loop kws2 ks acc"
  by (induction ks arbitrary: acc) (simp_all add: dict_getitem_def split: option.splits)

text \<open>
  Claim C4. Two keyword dicts with the same key/value pairs, whatever their
  insertion order, give the same result of \<open>format_query\<close> on the same other
  arguments. With an area or a point and both dates given, the result is the
  date-range clause, then the area clause (empty without an area), then the
  point clause (empty without a point), then one clause per keyword, the
  keywords taken in increasing order of their keys.
\<close>

theorem format_query_deterministic:
  assumes "distinct (map fst kws1)" and "distinct (map fst kws2)"
    and "set kws1 = set kws2"
  shows "format_query lib defs now area point initial_date end_date kws1 =
         format_query lib defs now area point initial_date end_date kws2
       \<and> (area \<noteq> None \<or> point \<noteq> None \<longrightarrow>
          format_query lib defs now area point (Some i) (Some e) kws1 =
            Inr (acquisition_clause lib i e @ area_clause area @ point_clause point @
                 concat (map (\<lambda>(kw, v). filter_clause kw v) (sort_key fst kws1))))
       \<and> sorted (map fst (sort_key fst kws1))
       \<and> set (sort_key fst kws1) = set kws1"
proof -
  have h: "filters_loop kws1 (sort (dict_keys kws1)) [] =
        filters_loop kws2 (sort (dict_keys kws2)) []"
    using same_dict(2) [OF assms] filters_loop_cong [OF same_dict(1) [OF assms]] by simp
  have "format_query lib defs now area point initial_date end_date kws1 =
         format_query lib defs now area point initial_date end_date kws2"
    unfolding format_query_def h ..
  moreover have "area \<noteq> None \<or> point \<noteq> None \<longrightarrow>
          format_query lib defs now area point (Some i) (Some e) kws1 =
            Inr (acquisition_clause lib i e @ area_clause area @ point_clause point @
                 concat (map (\<lambda>(kw, v). filter_clause kw v) (sort_key fst kws1)))"
    by (simp add: format_query_def filters_sorted_pairs [OF assms(1)])
  ultimately show ?thesis by simp
qed

theorem format_query_deterministic_witness:
  "format_query calendar (class_definition example_import_time example_import_time)
          example_call_time (Some example_area) (Some ''48.0,11.0'')
          (Some (DateStr ''20151201'')) (Some (DateStr ''NOW''))
          [(''producttype'', ''SLC''), (''orbitdirection'', ''ASCENDING'')] =
     Inr (''(beginPosition:[2015-12-01T00:00:00Z TO NOW])'' @
          '' AND (footprint:\"Intersects(POLYGON((0 0,1 1,0 1,0 0)))\")'' @
          '' AND (footprint:\"intersects(48.0,11.0)\")'' @
          '' AND (orbitdirection:ASCENDING) AND (producttype:SLC)'')
   \<and> format_query calendar (class_definition example_import_time example_import_time)
          example_call_time (Some example_area) (Some ''48.0,11.0'')
          (Some (DateStr ''20151201'')) (Some (DateStr ''NOW''))
          [(''orbitdirection'', ''ASCENDING''), (''producttype'', ''SLC'')] =
       format_query calendar (class_definition example_import_time example_import_time)
          example_call_time (Some example_area) (Some ''48.0,11.0'')
          (Some (DateStr ''20151201'')) (Some (DateStr ''NOW''))
          [(''producttype'', ''SLC''), (''orbitdirection'', ''ASCENDING'')]"
proof -
  let ?k1 = "[(''producttype'', ''SLC''), (''orbitdirection'', ''ASCENDING'')]"
  let ?k2 = "[(''orbitdirection'', ''ASCENDING''), (''producttype'', ''SLC'')]"
  have d1: "distinct (map fst ?k1)" and d2: "distinct (map fst ?k2)" and s: "set ?k1 = set ?k2"
    by auto
  note t = format_query_deterministic [OF d1 d2 s, of calendar
      "class_definition example_import_time example_import_time" example_call_time
      "Some example_area" "Some ''48.0,11.0''" "Some (DateStr ''20151201'')" "Some (DateStr ''NOW'')"
      "DateStr ''20151201''" "DateStr ''NOW''"]
  from t have eq: "format_query calendar (class_definition example_import_time example_import_time)
          example_call_time (Some example_area) (Some ''48.0,11.0'')
          (Some (DateStr ''20151201'')) (Some (DateStr ''NOW'')) ?k1 =
       format_query calendar (class_definition example_import_time example_import_time)
          example_call_time (Some example_area) (Some ''48.0,11.0'')
          (Some (DateStr ''20151201'')) (Some (DateStr ''NOW'')) ?k2"
    by (rule conjunct1)
  from conjunct1 [OF conjunct2 [OF t]]
  have "format_query calendar (class_definition example_import_time example_import_time)
          example_call_time (Some example_area) (Some ''48.0,11.0'')
          (Some (DateStr ''20151201'')) (Some (DateStr ''NOW'')) ?k1 =
            Inr (acquisition_clause calendar (DateStr ''20151201'') (DateStr ''NOW'') @
                 area_clause (Some example_area) @ point_clause (Some ''48.0,11.0'') @
                 concat (map (\<lambda>(kw, v). filter_clause kw v) (sort_key fst ?k1)))"
    by simp
  then have v: "format_query calendar (class_definition example_import_time example_import_time)
          example_call_time (Some example_area) (Some ''48.0,11.0'')
          (Some (DateStr ''20151201'')) (Some (DateStr ''NOW'')) ?k1 =
     Inr (''(beginPosition:[2015-12-01T00:00:00Z TO NOW])'' @
          '' AND (footprint:\"Intersects(POLYGON((0 0,1 1,0 1,0 0)))\")'' @
          '' AND (footprint:\"intersects(48.0,11.0)\")'' @
          '' AND (orbitdirection:ASCENDING) AND (producttype:SLC)'')"
    by (simp add: acquisition_clause_def format_date_def area_clause_def point_clause_def
        filter_clause_def example_area_def cal_defs)
  from v eq show ?thesis by simp
qed


section \<open>The default end date\<close>

text \<open>
  Claim C10. A call of \<open>format_query\<close> or of \<open>query\<close> that gives no dates
  uses the end date that was computed when the class was defined, whatever
  the time of the call: two such calls at different times, on the same other
  arguments, give the same result, that of a call with the interval that
  ends at the time of definition and starts 24 hours before it; a call that
  omits \<open>end_date\<close> only is a call with the time of definition as
  \<open>end_date\<close>. With an area or a point, no dates and a keyword dict,
  \<open>format_query\<close> returns the query for the interval that ends at the
  reading \<open>t2\<close> of the clock at its own header, and \<open>query\<close> stores and
  posts the query for the interval that ends at the reading \<open>t1\<close> at the
  header of \<open>query\<close>.
\<close>

theorem default_end_date_fixed_at_definition:
  "format_query lib (class_definition t1 t2) now1 area point None None kws =
     format_query lib (class_definition t1 t2) now2 area point None None kws
   \<and> format_query lib (class_definition t1 t2) now1 area point None None kws =
     format_query lib (class_definition t1 t2) now1 area point
       (Some (DateObj (minus_24h lib t2))) (Some (DateObj t2)) kws
   \<and> query env lib (class_definition t1 t2) now1 area point None None kws w =
     query env lib (class_definition t1 t2) now2 area point None None kws w
   \<and> query env lib (class_definition t1 t2) now1 area point None None kws w =
     query env lib (class_definition t1 t2) now1 area point
       (Some (DateObj (minus_24h lib t1))) (Some (DateObj t1)) kws w
   \<and> format_query lib (class_definition t1 t2) now1 area point initial_date None kws =
     format_query lib (class_definition t1 t2) now1 area point initial_date (Some (DateObj t2)) kws
   \<and> query env lib (class_definition t1 t2) now1 area point initial_date None kws w =
     query env lib (class_definition t1 t2) now1 area point initial_date (Some (DateObj t1)) kws w
   \<and> (area \<noteq> None \<or> point \<noteq> None \<longrightarrow> distinct (map fst kws) \<longrightarrow>
        format_query lib (class_definition t1 t2) now1 area point None None kws =
          Inr (''(beginPosition:['' @ strftime_iso lib (minus_24h lib t2) @ '' TO '' @
               strftime_iso lib t2 @ ''])'' @ area_clause area @ point_clause point @
               concat (map (\<lambda>(kw, v). filter_clause kw v) (sort_key fst kws)))
      \<and> query env lib (class_definition t1 t2) now1 area point None None kws w =
          query_raw env
            (''(beginPosition:['' @ strftime_iso lib (minus_24h lib t1) @ '' TO '' @
             strftime_iso lib t1 @ ''])'' @ area_clause area @ point_clause point @
             concat (map (\<lambda>(kw, v). filter_clause kw v) (sort_key fst kws))) w
      \<and> last_query (snd (query env lib (class_definition t1 t2) now1 area point None None kws w)) =
          Some (''(beginPosition:['' @ strftime_iso lib (minus_24h lib t1) @ '' TO '' @
                strftime_iso lib t1 @ ''])'' @ area_clause area @ point_clause point @
                concat (map (\<lambda>(kw, v). filter_clause kw v) (sort_key fst kws)))
      \<and> trace (snd (query env lib (class_definition t1 t2) now1 area point None None kws w)) =
          trace w @
          [Post (''(beginPosition:['' @ strftime_iso lib (minus_24h lib t1) @ '' TO '' @
                 strftime_iso lib t1 @ ''])'' @ area_clause area @ point_clause point @
                 concat (map (\<lambda>(kw, v). filter_clause kw v) (sort_key fst kws)))])"
proof -
  have eqs: "format_query lib (class_definition t1 t2) now1 area point None None kws =
       format_query lib (class_definition t1 t2) now2 area point None None kws"
    "format_query lib (class_definition t1 t2) now1 area point None None kws =
     format_query lib (class_definition t1 t2) now1 area point
       (Some (DateObj (minus_24h lib t2))) (Some (DateObj t2)) kws"
    "query env lib (class_definition t1 t2) now1 area point None None kws w =
     query env lib (class_definition t1 t2) now2 area point None None kws w"
    "query env lib (class_definition t1 t2) now1 area point None None kws w =
     query env lib (class_definition t1 t2) now1 area point
       (Some (DateObj (minus_24h lib t1))) (Some (DateObj t1)) kws w"
    "format_query lib (class_definition t1 t2) now1 area point initial_date None kws =
     format_query lib (class_definition t1 t2) now1 area point initial_date (Some (DateObj t2)) kws"
    "query env lib (class_definition t1 t2) now1 area point initial_date None kws w =
     query env lib (class_definition t1 t2) now1 area point initial_date (Some (DateObj t1)) kws w"
    by (simp_all add: format_query_def query_def class_definition_def default_initial_date_def)
  have fq: "format_query lib (class_definition t1 t2) now1 area point None (Some (DateObj t)) kws =
          Inr (''(beginPosition:['' @ strftime_iso lib (minus_24h lib t) @ '' TO '' @
               strftime_iso lib t @ ''])'' @ area_clause area @ point_clause point @
               concat (map (\<lambda>(kw, v). filter_clause kw v) (sort_key fst kws)))"
    if "area \<noteq> None \<or> point \<noteq> None" "distinct (map fst kws)" for t
    using that(1)
    by (simp add: format_query_def default_initial_date_def filters_sorted_pairs [OF that(2)]
        acquisition_clause_def format_date_def)
  have pinned: "format_query lib (class_definition t1 t2) now1 area point None None kws =
          Inr (''(beginPosition:['' @ strftime_iso lib (minus_24h lib t2) @ '' TO '' @
               strftime_iso lib t2 @ ''])'' @ area_clause area @ point_clause point @
               concat (map (\<lambda>(kw, v). filter_clause kw v) (sort_key fst kws)))
      \<and> query env lib (class_definition t1 t2) now1 area point None None kws w =
          query_raw env
            (''(beginPosition:['' @ strftime_iso lib (minus_24h lib t1) @ '' TO '' @
             strftime_iso lib t1 @ ''])'' @ area_clause area @ point_clause point @
             concat (map (\<lambda>(kw, v). filter_clause kw v) (sort_key fst kws))) w
      \<and> last_query (snd (query env lib (class_definition t1 t2) now1 area point None None kws w)) =
          Some (''(beginPosition:['' @ strftime_iso lib (minus_24h lib t1) @ '' TO '' @
                strftime_iso lib t1 @ ''])'' @ area_clause area @ point_clause point @
                concat (map (\<lambda>(kw, v). filter_clause kw v) (sort_key fst kws)))
      \<and> trace (snd (query env lib (class_definition t1 t2) now1 area point None None kws w)) =
          trace w @
          [Post (''(beginPosition:['' @ strftime_iso lib (minus_24h lib t1) @ '' TO '' @
                 strftime_iso lib t1 @ ''])'' @ area_clause area @ point_clause point @
                 concat (map (\<lambda>(kw, v). filter_clause kw v) (sort_key fst kws)))]"
    if a: "area \<noteq> None \<or> point \<noteq> None" and d: "distinct (map fst kws)"
  proof -
    have f2: "format_query lib (class_definition t1 t2) now1 area point None None kws =
        format_query lib (class_definition t1 t2) now1 area point None (Some (DateObj t2)) kws"
      by (simp add: format_query_def class_definition_def)
    have q: "query env lib (class_definition t1 t2) now1 area point None None kws w =
          query_raw env
            (''(beginPosition:['' @ strftime_iso lib (minus_24h lib t1) @ '' TO '' @
             strftime_iso lib t1 @ ''])'' @ area_clause area @ point_clause point @
             concat (map (\<lambda>(kw, v). filter_clause kw v) (sort_key fst kws))) w"
    proof -
      have qe: "query_end_date (class_definition t1 t2) = t1"
        by (simp add: class_definition_def)
      show ?thesis
        unfolding query_def qe by (simp add: fq [OF a d])
    qed
    have r: "last_query (snd (query_raw env s w)) = Some s \<and>
        trace (snd (query_raw env s w)) = trace w @ [Post s]" for s
      by (simp add: query_raw_def emit_def Let_def split: sum.splits)
    from f2 fq [OF a d] q r show ?thesis by simp
  qed
  from eqs pinned show ?thesis by blast
qed

theorem default_end_date_fixed_at_definition_witness:
  "format_query calendar (class_definition example_import_time (example_import_time\<lparr>second := 6\<rparr>))
     example_call_time (Some example_area) None None None [(''producttype'', ''GRD'')] =
   Inr (''(beginPosition:[2016-02-29T10:30:06Z TO 2016-03-01T10:30:06Z])'' @
        '' AND (footprint:\"Intersects(POLYGON((0 0,1 1,0 1,0 0)))\")'' @
        '' AND (producttype:GRD)'')
   \<and> (case query example_catalog calendar
              (class_definition example_import_time (example_import_time\<lparr>second := 6\<rparr>))
              example_call_time (Some example_area) None None None [(''producttype'', ''GRD'')]
              (example_world Map.empty) of
         (raised, w) \<Rightarrow> (raised, last_query w, trace w)) =
       (None,
        Some (''(beginPosition:[2016-02-29T10:30:05Z TO 2016-03-01T10:30:05Z])'' @
              '' AND (footprint:\"Intersects(POLYGON((0 0,1 1,0 1,0 0)))\")'' @
              '' AND (producttype:GRD)''),
        [Post (''(beginPosition:[2016-02-29T10:30:05Z TO 2016-03-01T10:30:05Z])'' @
               '' AND (footprint:\"Intersects(POLYGON((0 0,1 1,0 1,0 0)))\")'' @
               '' AND (producttype:GRD)'')])"
proof -
  let ?defs = "class_definition example_import_time (example_import_time\<lparr>second := 6\<rparr>)"
  let ?kws = "[(''producttype'', ''GRD'')]"
  have a: "Some example_area \<noteq> None \<or> (None :: string option) \<noteq> None" by simp
  have d: "distinct (map fst ?kws)" by simp
  note t = default_end_date_fixed_at_definition [where lib = calendar
      and ?t1.0 = example_import_time and ?t2.0 = "example_import_time\<lparr>second := 6\<rparr>"
      and ?now1.0 = example_call_time and ?now2.0 = example_import_time
      and area = "Some example_area" and point = None and kws = ?kws
      and env = example_catalog and w = "example_world Map.empty"]
  from t a d
  have p: "format_query calendar ?defs example_call_time (Some example_area) None None None ?kws =
          Inr (''(beginPosition:['' @
               strftime_iso calendar (minus_24h calendar (example_import_time\<lparr>second := 6\<rparr>)) @
               '' TO '' @ strftime_iso calendar (example_import_time\<lparr>second := 6\<rparr>) @ ''])'' @
               area_clause (Some example_area) @ point_clause None @
               concat (map (\<lambda>(kw, v). filter_clause kw v) (sort_key fst ?kws)))"
    and q: "query example_catalog calendar ?defs example_call_time (Some example_area) None None None
            ?kws (example_world Map.empty) =
          query_raw example_catalog
            (''(beginPosition:['' @ strftime_iso calendar (minus_24h calendar example_import_time) @
             '' TO '' @ strftime_iso calendar example_import_time @ ''])'' @
             area_clause (Some example_area) @ point_clause None @
             concat (map (\<lambda>(kw, v). filter_clause kw v) (sort_key fst ?kws))) (example_world Map.empty)"
    by blast+
  have s1: "strftime_iso calendar (minus_24h calendar (example_import_time\<lparr>second := 6\<rparr>)) =
        ''2016-02-29T10:30:06Z''"
    and s2: "strftime_iso calendar (example_import_time\<lparr>second := 6\<rparr>) = ''2016-03-01T10:30:06Z''"
    and s3: "strftime_iso calendar (minus_24h calendar example_import_time) = ''2016-02-29T10:30:05Z''"
    and s4: "strftime_iso calendar example_import_time = ''2016-03-01T10:30:05Z''"
    by (simp_all add: example_import_time_def cal_defs)
  have c: "area_clause (Some example_area) @ point_clause None @
        concat (map (\<lambda>(kw, v). filter_clause kw v) (sort_key fst ?kws)) =
      '' AND (footprint:\"Intersects(POLYGON((0 0,1 1,0 1,0 0)))\")'' @ '' AND (producttype:GRD)''"
    by (simp add: area_clause_def point_clause_def filter_clause_def example_area_def)
  have "format_query calendar ?defs example_call_time (Some example_area) None None None ?kws =
     Inr (''(beginPosition:[2016-02-29T10:30:06Z TO 2016-03-01T10:30:06Z])'' @
        '' AND (footprint:\"Intersects(POLYGON((0 0,1 1,0 1,0 0)))\")'' @
        '' AND (producttype:GRD)'')"
    unfolding p s1 s2 c by simp
  moreover have "(case query example_catalog calendar ?defs example_call_time (Some example_area)
              None None None ?kws (example_world Map.empty) of
         (raised, w) \<Rightarrow> (raised, last_query w, trace w)) =
       (None,
        Some (''(beginPosition:[2016-02-29T10:30:05Z TO 2016-03-01T10:30:05Z])'' @
              '' AND (footprint:\"Intersects(POLYGON((0 0,1 1,0 1,0 0)))\")'' @
              '' AND (producttype:GRD)''),
        [Post (''(beginPosition:[2016-02-29T10:30:05Z TO 2016-03-01T10:30:05Z])'' @
               '' AND (footprint:\"Intersects(POLYGON((0 0,1 1,0 1,0 0)))\")'' @
               '' AND (producttype:GRD)'')])"
    unfolding q s3 s4 c
    by (simp add: query_raw_def example_catalog_def example_env_of_def example_response_def
        check_scihub_response_def emit_def example_world_def)
  ultimately show ?thesis by (rule conjI)
qed


section \<open>get\_products\<close>

text \<open>
  Claim C5. When the last response is JSON whose \<open>feed\<close> is a dict:
  an \<open>entry\<close> that is a single object gives the one-element list of that
  object, the same value as a response whose \<open>entry\<close> is the list of that
  one object; and a \<open>feed\<close> without the key \<open>entry\<close> gives the empty list,
  not an exception.
\<close>

theorem get_products_normalizes:
  assumes "content w = Some r" and "body_json r = Some j" and "getitem j ''feed'' = Inr feed"
    and "content w' = Some r'" and "body_json r' = Some j'" and "getitem j' ''feed'' = Inr feed'"
  shows "(getitem feed ''entry'' = Inr (JObj e) \<and> getitem feed' ''entry'' = Inr (JArr [JObj e])
          \<longrightarrow> fst (get_products w) = Inr (JArr [JObj e])
            \<and> fst (get_products w) = fst (get_products w'))
       \<and> (getitem feed ''entry'' = Inl (KeyError ''entry'') \<longrightarrow> fst (get_products w) = Inr (JArr []))"
  using assms
  by (simp add: get_products_def get_products_except_def is_dict_def)

theorem get_products_normalizes_witness:
  "fst (get_products (example_search
          (JObj [(''opensearch:totalResults'', JStr ''1''),
                 (''entry'', JObj [(''title'', JStr ''S1A_EW_GRDH_1SDH'')])]))) =
     Inr (JArr [JObj [(''title'', JStr ''S1A_EW_GRDH_1SDH'')]])
   \<and> fst (get_products (example_search
          (JObj [(''opensearch:totalResults'', JStr ''1''),
                 (''entry'', JObj [(''title'', JStr ''S1A_EW_GRDH_1SDH'')])]))) =
     fst (get_products (example_search
          (JObj [(''opensearch:totalResults'', JStr ''1''),
                 (''entry'', JArr [JObj [(''title'', JStr ''S1A_EW_GRDH_1SDH'')]])])))
   \<and> fst (get_products (example_search
          (JObj [(''opensearch:totalResults'', JStr ''0'')]))) =
     Inr (JArr [])"
proof -
  let ?e = "[(''title'', JStr ''S1A_EW_GRDH_1SDH'')]"
  let ?f1 = "JObj [(''opensearch:totalResults'', JStr ''1''), (''entry'', JObj ?e)]"
  let ?f2 = "JObj [(''opensearch:totalResults'', JStr ''1''), (''entry'', JArr [JObj ?e])]"
  let ?f0 = "JObj [(''opensearch:totalResults'', JStr ''0'')]"
  have c: "\<And>f. content (example_search f) = Some (example_response f)"
    by (simp add: example_search_def example_world_def)
  have b: "\<And>f. body_json (example_response f) = Some (JObj [(''feed'', f)])"
    by (simp add: example_response_def)
  have g: "\<And>f. getitem (JObj [(''feed'', f)]) ''feed'' = Inr f"
    by (simp add: getitem_def)
  have e1: "getitem ?f1 ''entry'' = Inr (JObj ?e)"
    and e2: "getitem ?f2 ''entry'' = Inr (JArr [JObj ?e])"
    and e0: "getitem ?f0 ''entry'' = Inl (KeyError ''entry'')"
    by (simp_all add: getitem_def)
  from conjunct1 [OF get_products_normalizes
      [where e = ?e and feed = ?f1 and feed' = ?f2, OF c b g c b g]] e1 e2
  have "fst (get_products (example_search ?f1)) = Inr (JArr [JObj ?e])
      \<and> fst (get_products (example_search ?f1)) = fst (get_products (example_search ?f2))"
    by blast
  moreover from conjunct2 [OF get_products_normalizes
      [where e = ?e and feed = ?f0 and feed' = ?f0, OF c b g c b g]] e0
  have "fst (get_products (example_search ?f0)) = Inr (JArr [])"
    by blast
  ultimately show ?thesis by blast
qed

section \<open>download: the metadata loop\<close>

lemma string_api_errorD:
  "string_api_error reply \<Longrightarrow>
   \<exists>e rendered. reply = Inl e \<and> is_SentinelAPIError e \<and> api_error_str e = Inr rendered"
  by (auto simp: string_api_error_def is_SentinelAPIError_def api_error_str_def
      split: sum.splits exn.splits json.splits)

lemma sleeps_append: "sleeps (xs @ ys) = sleeps xs @ sleeps ys"
  by (simp add: sleeps_def)

lemma loop_step:
  assumes "product_info_reply env (net_calls w) uuid = Inl e" "is_SentinelAPIError e"
    "api_error_str e = Inr rendered"
  shows "product_info_loop env uuid w =
     product_info_loop env uuid
       (emit [Print ''Invalid API response:\<newline>{}\<newline>Trying again in 1 minute.'' [rendered], Sleep 60]
          ((emit [GetProductInfo uuid] w)\<lparr>net_calls := Suc (net_calls w)\<rparr>))"
  using assms by (subst product_info_loop.simps) (simp add: get_product_info_def)

lemma loop_retries:
  "(\<forall>k<n. string_api_error (product_info_reply env (net_calls w + k) uuid)) \<Longrightarrow>
   product_info_reply env (net_calls w + n) uuid = Inr info \<Longrightarrow>
   \<exists>w'. product_info_loop env uuid w = Some (Inr info, w') \<and>
        net_calls w' = net_calls w + n + 1 \<and> files w' = files w \<and>
        sleeps (trace w') = sleeps (trace w) @ replicate n 60"
proof (induction n arbitrary: w)
  case 0
  then show ?case
    by (subst product_info_loop.simps)
       (simp add: get_product_info_def emit_def sleeps_append sleeps_def)
next
  case (Suc n)
  from Suc.prems(1) have "string_api_error (product_info_reply env (net_calls w) uuid)"
    by force
  then obtain e rendered where e: "product_info_reply env (net_calls w) uuid = Inl e"
      "is_SentinelAPIError e" "api_error_str e = Inr rendered"
    using string_api_errorD by blast
  let ?w1 = "emit [Print ''Invalid API response:\<newline>{}\<newline>Trying again in 1 minute.'' [rendered],
                   Sleep 60] ((emit [GetProductInfo uuid] w)\<lparr>net_calls := Suc (net_calls w)\<rparr>)"
  have nc: "net_calls ?w1 = Suc (net_calls w)" by (simp add: emit_def)
  note step = loop_step [OF e]
  have "\<forall>k<n. string_api_error (product_info_reply env (net_calls ?w1 + k) uuid)"
  proof (intro allI impI)
    fix k assume "k < n"
    then have "Suc k < Suc n" by simp
    with Suc.prems(1) have "string_api_error (product_info_reply env (net_calls w + Suc k) uuid)"
      by blast
    then show "string_api_error (product_info_reply env (net_calls ?w1 + k) uuid)"
      by (simp add: nc)
  qed
  moreover have "product_info_reply env (net_calls ?w1 + n) uuid = Inr info"
    using Suc.prems(2) by (simp add: nc)
  ultimately obtain w' where w': "product_info_loop env uuid ?w1 = Some (Inr info, w')"
      "net_calls w' = net_calls ?w1 + n + 1" "files w' = files ?w1"
      "sleeps (trace w') = sleeps (trace ?w1) @ replicate n 60"
    using Suc.IH [of ?w1] by blast
  have "sleeps (trace ?w1) = sleeps (trace w) @ [60]"
    by (simp add: emit_def sleeps_append) (simp add: sleeps_def)
  with w' step nc show ?case
    by (simp add: emit_def replicate_append_same)
qed

lemma loop_never_returns:
  assumes "product_info_loop env uuid w = Some y"
  shows "\<not> (\<forall>k. string_api_error (product_info_reply env (net_calls w + k) uuid))"
  using assms
proof (induction rule: product_info_loop.raw_induct [rotated 1, consumes 1, case_names step])
  case (step loop env uuid w y)
  show ?case
  proof
    assume all: "\<forall>k. string_api_error (product_info_reply env (net_calls w + k) uuid)"
    then have "string_api_error (product_info_reply env (net_calls w) uuid)"
      by (metis add.right_neutral)
    then obtain e rendered where e: "product_info_reply env (net_calls w) uuid = Inl e"
      "is_SentinelAPIError e" "api_error_str e = Inr rendered"
      using string_api_errorD by blast
    let ?w1 = "emit [Print ''Invalid API response:\<newline>{}\<newline>Trying again in 1 minute.'' [rendered],
                   Sleep 60] ((emit [GetProductInfo uuid] w)\<lparr>net_calls := Suc (net_calls w)\<rparr>)"
    from step(2) e have "loop env uuid ?w1 = Some y"
      by (simp add: get_product_info_def)
    from step(1) [OF this]
    have "\<not> (\<forall>k. string_api_error (product_info_reply env (net_calls ?w1 + k) uuid))" .
    moreover have "\<forall>k. string_api_error (product_info_reply env (net_calls ?w1 + k) uuid)"
    proof
      fix k
      from all have "string_api_error (product_info_reply env (net_calls w + Suc k) uuid)"
        by blast
      then show "string_api_error (product_info_reply env (net_calls ?w1 + k) uuid)"
        by (simp add: emit_def)
    qed
    ultimately show False by blast
  qed
qed

lemma loop_swallows:
  assumes "product_info_loop env uuid w = Some y"
  shows "\<forall>e w'. y = (Inl e, w') \<longrightarrow> \<not> is_SentinelAPIError e"
  using assms
proof (induction rule: product_info_loop.raw_induct [rotated 1, consumes 1, case_names step])
  case (step loop env uuid w y)
  obtain r w1 where g: "get_product_info env uuid w = (r, w1)" by (cases "get_product_info env uuid w")
  show ?case
  proof (cases r)
    case (Inl e)
    show ?thesis
    proof (cases "is_SentinelAPIError e")
      case True
      show ?thesis
      proof (cases "api_error_str e")
        case raised: (Inl err)
        with True have "err = TypeError"
          by (auto simp: api_error_str_def is_SentinelAPIError_def split: exn.splits json.splits)
        with step(2) g Inl True raised show ?thesis
          by (auto simp: is_SentinelAPIError_def)
      next
        case (Inr rendered)
        with step(2) g Inl True
        have "loop env uuid (emit [Print ''Invalid API response:\<newline>{}\<newline>Trying again in 1 minute.'' [rendered],
                   Sleep 60] w1) = Some y" by simp
        from step(1) [OF this] show ?thesis .
      qed
    next
      case False
      with step(2) g Inl show ?thesis by auto
    qed
  next
    case (Inr info)
    with step(2) g show ?thesis by auto
  qed
qed

lemma loop_str_raises:
  assumes "product_info_reply env (net_calls w) uuid = Inl (SentinelAPIError http_status code msg response_body)"
    and "\<forall>s. msg \<noteq> JStr s"
  shows "product_info_loop env uuid w =
           Some (Inl TypeError, (emit [GetProductInfo uuid] w)\<lparr>net_calls := Suc (net_calls w)\<rparr>)"
  using assms
  by (subst product_info_loop.simps)
     (auto simp add: get_product_info_def is_SentinelAPIError_def api_error_str_def split: json.splits)


text \<open>
  The metadata loop on catalog errors whose message is a string: whatever the
  number \<open>n\<close> of such errors before the first answer, the loop makes \<open>n + 1\<close>
  requests, sleeps \<open>n\<close> times 60 seconds and returns the answer; when every
  request fails that way the loop, and \<open>download\<close> with it, never returns;
  and the loop never passes a SentinelAPIError on to its caller. A
  SentinelAPIError whose message is not a string ends the loop at once with
  the TypeError of \<open>str(e)\<close>.
\<close>

theorem metadata_fetch_retried_without_bound:
  "((\<forall>k<n. string_api_error (product_info_reply env (net_calls w + k) uuid)) \<longrightarrow>
    product_info_reply env (net_calls w + n) uuid = Inr info \<longrightarrow>
    (\<exists>w'. product_info_loop env uuid w = Some (Inr info, w') \<and>
          net_calls w' = net_calls w + n + 1 \<and> files w' = files w \<and>
          sleeps (trace w') = sleeps (trace w) @ replicate n 60))
   \<and> ((\<forall>k. string_api_error (product_info_reply env (net_calls w + k) uuid)) \<longrightarrow>
        product_info_loop env uuid w = None \<and>
        download env uuid directory_path checksum check_existing w = None)
   \<and> (\<forall>e w'. product_info_loop env uuid w = Some (Inl e, w') \<longrightarrow> \<not> is_SentinelAPIError e)
   \<and> (product_info_reply env (net_calls w) uuid =
          Inl (SentinelAPIError http_status code msg response_body) \<longrightarrow>
        (\<forall>s. msg \<noteq> JStr s) \<longrightarrow>
        download env uuid directory_path checksum check_existing w =
          Some (Inl TypeError, (emit [GetProductInfo uuid] w)\<lparr>net_calls := Suc (net_calls w)\<rparr>))"
proof (intro conjI impI allI)
  assume "\<forall>k<n. string_api_error (product_info_reply env (net_calls w + k) uuid)"
    and "product_info_reply env (net_calls w + n) uuid = Inr info"
  then show "\<exists>w'. product_info_loop env uuid w = Some (Inr info, w') \<and>
          net_calls w' = net_calls w + n + 1 \<and> files w' = files w \<and>
          sleeps (trace w') = sleeps (trace w) @ replicate n 60"
    by (rule loop_retries)
next
  assume a: "\<forall>k. string_api_error (product_info_reply env (net_calls w + k) uuid)"
  show n: "product_info_loop env uuid w = None"
  proof (cases "product_info_loop env uuid w")
    case None
    then show ?thesis .
  next
    case (Some y)
    from loop_never_returns [OF this] a show ?thesis by blast
  qed
  then show "download env uuid directory_path checksum check_existing w = None"
    by (simp add: download_def)
next
  fix e w'
  assume "product_info_loop env uuid w = Some (Inl e, w')"
  from loop_swallows [OF this] show "\<not> is_SentinelAPIError e" by blast
next
  assume "product_info_reply env (net_calls w) uuid =
          Inl (SentinelAPIError http_status code msg response_body)"
    and "\<forall>s. msg \<noteq> JStr s"
  from loop_str_raises [OF this]
  show "download env uuid directory_path checksum check_existing w =
          Some (Inl TypeError, (emit [GetProductInfo uuid] w)\<lparr>net_calls := Suc (net_calls w)\<rparr>)"
    by (simp add: download_def)
qed

theorem metadata_fetch_retried_without_bound_witness:
  "(\<exists>w'. product_info_loop (example_env 2 ''PycURL/7.43.0 libcurl/7.47.0'' ''good'') example_uuid
            (example_world Map.empty) = Some (Inr example_info, w') \<and>
         net_calls w' = 3 \<and> sleeps (trace w') = [60, 60])
   \<and> download (example_env_of (\<lambda>k uuid. Inl (SentinelAPIError 503 JNull default_msg ''Service Unavailable'')))
        example_uuid ''.'' False False (example_world Map.empty) = None"
proof -
  let ?env = "example_env 2 ''PycURL/7.43.0 libcurl/7.47.0'' ''good''"
  let ?down = "example_env_of (\<lambda>k uuid. Inl (SentinelAPIError 503 JNull default_msg ''Service Unavailable''))"
  let ?w = "example_world Map.empty"
  have h1: "\<forall>k<2. string_api_error (product_info_reply ?env (net_calls ?w + k) example_uuid)"
    by (simp add: example_env_def example_env_of_def example_world_def string_api_error_def default_msg_def)
  have h2: "product_info_reply ?env (net_calls ?w + 2) example_uuid = Inr example_info"
    by (simp add: example_env_def example_env_of_def example_world_def)
  from conjunct1 [OF metadata_fetch_retried_without_bound
      [where n = 2 and env = ?env and w = ?w and uuid = example_uuid and info = example_info]] h1 h2
  have "\<exists>w'. product_info_loop ?env example_uuid ?w = Some (Inr example_info, w') \<and>
          net_calls w' = net_calls ?w + 2 + 1 \<and> files w' = files ?w \<and>
          sleeps (trace w') = sleeps (trace ?w) @ replicate 2 60"
    by blast
  then have a: "\<exists>w'. product_info_loop ?env example_uuid ?w = Some (Inr example_info, w') \<and>
         net_calls w' = 3 \<and> sleeps (trace w') = [60, 60]"
    by (auto simp add: example_world_def sleeps_def numeral_2_eq_2)
  have h3: "\<forall>k. string_api_error (product_info_reply ?down (net_calls ?w + k) example_uuid)"
    by (simp add: example_env_of_def string_api_error_def default_msg_def)
  from conjunct1 [OF conjunct2 [OF metadata_fetch_retried_without_bound
        [where env = ?down and w = ?w and uuid = example_uuid and directory_path = "''.''"
           and checksum = False and check_existing = False]]] h3
  have "download ?down example_uuid ''.'' False False ?w = None"
    by blast
  with a show ?thesis by blast
qed

text \<open>
  Claim C7, at a catalog error whose message is null. The metadata request is
  answered with status 500 and an error envelope whose \<open>message.value\<close> is
  null: \<open>_check_scihub_response\<close> raises a SentinelAPIError with \<open>msg\<close> None,
  the handler of the loop evaluates \<open>str(e)\<close>, and \<open>download\<close> raises
  TypeError after one request, without sleeping and without asking again.
\<close>

theorem download_raises_on_null_message:
  "check_scihub_response (example_env_of (\<lambda>k uuid. Inr example_info)) null_message_response =
     Some (SentinelAPIError 500 JNull JNull (body null_message_response))
   \<and> map_option (\<lambda>(r, w). (r, trace w, net_calls w))
       (download (example_env_of (\<lambda>k uuid. checked_reply null_message_response))
          example_uuid ''.'' False False (example_world Map.empty)) =
     Some (Inl TypeError, [GetProductInfo example_uuid], 1)"
proof -
  have c: "check_scihub_response (example_env_of (\<lambda>k uuid. Inr example_info)) null_message_response =
     Some (SentinelAPIError 500 JNull JNull (body null_message_response))"
    by (simp add: check_scihub_response_def error_envelope_def getitem_def null_message_response_def)
  then have r: "checked_reply null_message_response =
      Inl (SentinelAPIError 500 JNull JNull (body null_message_response))"
    by (simp add: checked_reply_def)
  have "product_info_loop (example_env_of (\<lambda>k uuid. checked_reply null_message_response))
          example_uuid (example_world Map.empty) =
        Some (Inl TypeError,
              (emit [GetProductInfo example_uuid] (example_world Map.empty))
                \<lparr>net_calls := Suc (net_calls (example_world Map.empty))\<rparr>)"
    by (rule loop_str_raises [where http_status = 500 and code = JNull and msg = JNull
          and response_body = "body null_message_response"])
       (simp_all add: example_env_of_def r)
  then have "map_option (\<lambda>(r, w). (r, trace w, net_calls w))
       (download (example_env_of (\<lambda>k uuid. checked_reply null_message_response))
          example_uuid ''.'' False False (example_world Map.empty)) =
     Some (Inl TypeError, [GetProductInfo example_uuid], 1)"
    by (simp add: download_def emit_def example_world_def)
  with c show ?thesis by (rule conjI)
qed

section \<open>download: files already on disk, and the check after the transfer\<close>

lemma read_blocks_all: "0 < block_size \<Longrightarrow> read_blocks block_size rest fed = fed @ rest"
proof (induction block_size rest fed rule: read_blocks.induct)
  case (1 block_size rest fed)
  show ?case
  proof (cases "take block_size rest = []")
    case True
    with 1(2) have "rest = []" by simp
    then show ?thesis by (subst read_blocks.simps) simp
  next
    case False
    with 1 have "read_blocks block_size (drop block_size rest) (fed @ take block_size rest)
        = (fed @ take block_size rest) @ drop block_size rest"
      by simp
    with False show ?thesis by (subst read_blocks.simps) (simp add: Let_def)
  qed
qed

lemma emit_emit: "emit ys (emit xs w) = emit (xs @ ys) w"
  by (simp add: emit_def)

lemma files_emit: "files (emit evs w) = files w"
  by (simp add: emit_def)

lemma md5_compare_file:
  "files w path = Some data \<Longrightarrow> 0 < block_size \<Longrightarrow>
   md5_compare env path c block_size w =
     (Inr (lower (md5_hexdigest env data) = lower c),
      emit [Progress ''MD5 checksumming'' (length data)] w)"
  by (simp add: md5_compare_def read_blocks_all)

lemma example_loop:
  "product_info_loop (example_env 0 v s) uuid w =
     Some (Inr example_info, (emit [GetProductInfo uuid] w)\<lparr>net_calls := Suc (net_calls w)\<rparr>)"
  by (subst product_info_loop.simps) (simp add: get_product_info_def example_env_def example_env_of_def)

lemma example_join: "example_path = join ''.'' (info_title example_info @ ''.zip'')"
  by (simp add: example_path_def example_info_def join_def startswith_def endswith_def)

text \<open>
  Claim C3. Let \<open>download\<close> find, once it has the product's metadata, a
  file at the target path whose size is the product's size. With
  \<open>check_existing=False\<close> it returns the path and the metadata after two
  lines of output: no transfer is made and no file is touched. With
  \<open>check_existing=True\<close> and a matching checksum it returns likewise, after
  reading the file. With \<open>check_existing=True\<close> and another checksum it
  removes the file and goes on to the transfer, which starts without a file.
\<close>

theorem download_existing_complete_file:
  assumes "product_info_loop env uuid w = Some (Inr info, w1)"
    and "path = join dir (info_title info @ ''.zip'')"
    and "files w1 path = Some data" and "int (length data) = info_size info"
  shows "download env uuid dir checksum False w =
           Some (Inr (path, info),
                 emit [Print ''Downloading %s to %s'' [AJson uuid, AStr path],
                       Print ''%s was already downloaded.'' [AStr path]] w1)
    \<and> (lower (md5_hexdigest env data) = lower (info_md5 info) \<longrightarrow>
         download env uuid dir checksum True w =
           Some (Inr (path, info),
                 emit [Print ''Downloading %s to %s'' [AJson uuid, AStr path],
                       Progress ''MD5 checksumming'' (length data),
                       Print ''%s was already downloaded.'' [AStr path]] w1))
    \<and> (lower (md5_hexdigest env data) \<noteq> lower (info_md5 info) \<longrightarrow>
         download env uuid dir checksum True w =
           Some (transfer_and_verify env checksum info path
                  (remove path
                    (emit [Print ''Downloading %s to %s'' [AJson uuid, AStr path],
                           Progress ''MD5 checksumming'' (length data),
                           Print ''%s was already downloaded but is corrupt: checksums do not match. Re-downloading.''
                             [AStr path]] w1)))
         \<and> files (remove path
                    (emit [Print ''Downloading %s to %s'' [AJson uuid, AStr path],
                           Progress ''MD5 checksumming'' (length data),
                           Print ''%s was already downloaded but is corrupt: checksums do not match. Re-downloading.''
                             [AStr path]] w1)) path = None)"
proof -
  let ?w1 = "emit [Print ''Downloading %s to %s'' [AJson uuid, AStr path]] w1"
  have f: "files ?w1 path = Some data" using assms(3) by (simp add: files_emit)
  have ex: "path_exists ?w1 path \<and> getsize ?w1 path = info_size info"
    using f assms(4) by (simp add: path_exists_def getsize_def)
  have a: "check_existing_file env info path False ?w1 =
      (Inr True, emit [Print ''Downloading %s to %s'' [AJson uuid, AStr path],
                       Print ''%s was already downloaded.'' [AStr path]] w1)"
    using ex by (simp add: check_existing_file_def emit_emit)
  have b: "lower (md5_hexdigest env data) = lower (info_md5 info) \<Longrightarrow>
      check_existing_file env info path True ?w1 =
      (Inr True, emit [Print ''Downloading %s to %s'' [AJson uuid, AStr path],
                       Progress ''MD5 checksumming'' (length data),
                       Print ''%s was already downloaded.'' [AStr path]] w1)"
    using ex md5_compare_file [OF f, of "2 ^ 13" env "info_md5 info"]
    by (simp add: check_existing_file_def emit_emit)
  let ?w3 = "remove path
                    (emit [Print ''Downloading %s to %s'' [AJson uuid, AStr path],
                           Progress ''MD5 checksumming'' (length data),
                           Print ''%s was already downloaded but is corrupt: checksums do not match. Re-downloading.''
                             [AStr path]] w1)"
  have c: "lower (md5_hexdigest env data) \<noteq> lower (info_md5 info) \<Longrightarrow>
      check_existing_file env info path True ?w1 = (Inr False, ?w3)"
    using ex md5_compare_file [OF f, of "2 ^ 13" env "info_md5 info"]
    by (simp add: check_existing_file_def emit_emit)
  have gone: "files ?w3 path = None"
    by (simp add: remove_def emit_def)
  then have d: "pycurl_workaround env path ?w3 = (None, ?w3)"
    by (simp add: pycurl_workaround_def path_exists_def)
  show ?thesis
    using assms(1) a b c d gone
    by (simp add: download_def download_file_def assms(2) [symmetric])
qed


theorem download_existing_complete_file_witness:
  "map_option (\<lambda>(r, w). (r, trace w, files w example_path))
     (download (example_env 0 ''PycURL/7.43.0 libcurl/7.47.0'' ''good'') example_uuid ''.'' False False
        (example_world [example_path \<mapsto> ''good''])) =
   Some (Inr (example_path, example_info),
         [GetProductInfo example_uuid,
          Print ''Downloading %s to %s'' [AJson example_uuid, AStr example_path],
          Print ''%s was already downloaded.'' [AStr example_path]],
         Some ''good'')
   \<and> map_option (\<lambda>(r, w). (r, trace w, files w example_path))
     (download (example_env 0 ''PycURL/7.43.0 libcurl/7.47.0'' ''good'') example_uuid ''.'' False True
        (example_world [example_path \<mapsto> ''evil''])) =
   Some (Inr (example_path, example_info),
         [GetProductInfo example_uuid,
          Print ''Downloading %s to %s'' [AJson example_uuid, AStr example_path],
          Progress ''MD5 checksumming'' 4,
          Print ''%s was already downloaded but is corrupt: checksums do not match. Re-downloading.''
            [AStr example_path],
          Remove example_path,
          Transfer (info_url example_info) example_path None],
         Some ''good'')"
proof -
  have a: "map_option (\<lambda>(r, w). (r, trace w, files w example_path))
     (download (example_env 0 ''PycURL/7.43.0 libcurl/7.47.0'' ''good'') example_uuid ''.'' False False
        (example_world [example_path \<mapsto> ''good''])) =
   Some (Inr (example_path, example_info),
         [GetProductInfo example_uuid,
          Print ''Downloading %s to %s'' [AJson example_uuid, AStr example_path],
          Print ''%s was already downloaded.'' [AStr example_path]],
         Some ''good'')"
  proof -
    let ?env = "example_env 0 ''PycURL/7.43.0 libcurl/7.47.0'' ''good''"
    let ?w = "example_world [example_path \<mapsto> ''good'']"
    let ?w1 = "(emit [GetProductInfo example_uuid] ?w)\<lparr>net_calls := Suc (net_calls ?w)\<rparr>"
    have f: "files ?w1 example_path = Some ''good''"
      by (simp add: emit_def example_world_def)
    have s: "int (length ''good'') = info_size example_info"
      by (simp add: example_info_def)
    from download_existing_complete_file [OF example_loop [of "''PycURL/7.43.0 libcurl/7.47.0''" "''good''"] example_join f s, where checksum = False]
    have "download ?env example_uuid ''.'' False False ?w =
          Some (Inr (example_path, example_info),
                   emit [Print ''Downloading %s to %s'' [AJson example_uuid, AStr example_path],
                         Print ''%s was already downloaded.'' [AStr example_path]] ?w1)"
      by (rule conjunct1)
    then show ?thesis
      by (simp add: emit_def example_world_def)
  qed
  have b: "map_option (\<lambda>(r, w). (r, trace w, files w example_path))
     (download (example_env 0 ''PycURL/7.43.0 libcurl/7.47.0'' ''good'') example_uuid ''.'' False True
        (example_world [example_path \<mapsto> ''evil''])) =
   Some (Inr (example_path, example_info),
         [GetProductInfo example_uuid,
          Print ''Downloading %s to %s'' [AJson example_uuid, AStr example_path],
          Progress ''MD5 checksumming'' 4,
          Print ''%s was already downloaded but is corrupt: checksums do not match. Re-downloading.''
            [AStr example_path],
          Remove example_path,
          Transfer (info_url example_info) example_path None],
         Some ''good'')"
  proof -
    let ?env = "example_env 0 ''PycURL/7.43.0 libcurl/7.47.0'' ''good''"
    let ?w = "example_world [example_path \<mapsto> ''evil'']"
    let ?w1 = "(emit [GetProductInfo example_uuid] ?w)\<lparr>net_calls := Suc (net_calls ?w)\<rparr>"
    have f: "files ?w1 example_path = Some ''evil''"
      by (simp add: emit_def example_world_def)
    have s: "int (length ''evil'') = info_size example_info"
      by (simp add: example_info_def)
    have m: "lower (md5_hexdigest ?env ''evil'') \<noteq> lower (info_md5 example_info)"
      by (simp add: example_env_def example_env_of_def example_digest_def example_info_def lower_def lower_char_def)
    from conjunct2 [OF conjunct2 [OF download_existing_complete_file
          [OF example_loop [of "''PycURL/7.43.0 libcurl/7.47.0''" "''good''"] example_join f s,
           where checksum = False]]] m
    have "download ?env example_uuid ''.'' False True ?w =
          Some (transfer_and_verify ?env False example_info example_path
                    (remove example_path
                      (emit [Print ''Downloading %s to %s'' [AJson example_uuid, AStr example_path],
                             Progress ''MD5 checksumming'' (length ''evil''),
                             Print ''%s was already downloaded but is corrupt: checksums do not match. Re-downloading.''
                               [AStr example_path]] ?w1)))"
      by simp
    then show ?thesis
      by (simp add: transfer_and_verify_def homura_download_def remove_def emit_def
          example_world_def example_env_def example_env_of_def)
  qed
  from a b show ?thesis by (rule conjI)
qed

text \<open>
  Claim C6. When \<open>download\<close> is called with \<open>checksum=True\<close> and the
  transfer ends without an exception, the file is compared with the
  product's checksum: a mismatch raises InvalidChecksumError and leaves the
  file in place. The comparison holds when the two hexadecimal strings are
  equal once both are in lower case, so \<open>ABC123\<close> matches a file whose digest
  is \<open>abc123\<close>.
\<close>

theorem checksum_mismatch_keeps_file:
  assumes "product_info_loop env uuid w = Some (Inr info, w1)"
    and "path = join dir (info_title info @ ''.zip'')"
    and "check_existing_file env info path check_existing
           (emit [Print ''Downloading %s to %s'' [AJson uuid, AStr path]] w1) = (Inr False, w2)"
    and "pycurl_workaround env path w2 = (None, w3)"
    and "homura_download env (info_url info) path w3 = (None, w4)"
    and "files w4 path = Some data"
  shows "download env uuid dir True check_existing w =
           Some (if lower (md5_hexdigest env data) = lower (info_md5 info)
                 then Inr (path, info)
                 else Inl (InvalidChecksumError ''File corrupt: checksums do not match''),
                 emit [Progress ''MD5 checksumming'' (length data)] w4)
    \<and> files (emit [Progress ''MD5 checksumming'' (length data)] w4) path = Some data
    \<and> fst (md5_compare env path c (2 ^ 13) w4) =
        Inr (lower (md5_hexdigest env data) = lower c)
    \<and> (md5_hexdigest env data = ''abc123'' \<longrightarrow>
        fst (md5_compare env path ''ABC123'' (2 ^ 13) w4) = Inr True)"
proof -
  have m: "\<And>c. md5_compare env path c (2 ^ 13) w4 =
     (Inr (lower (md5_hexdigest env data) = lower c),
      emit [Progress ''MD5 checksumming'' (length data)] w4)"
    using md5_compare_file [OF assms(6), of "2 ^ 13"] by simp
  have "transfer_and_verify env True info path w3 =
          (if lower (md5_hexdigest env data) = lower (info_md5 info)
                 then Inr (path, info)
                 else Inl (InvalidChecksumError ''File corrupt: checksums do not match''),
                 emit [Progress ''MD5 checksumming'' (length data)] w4)"
    using assms(5) m by (simp add: transfer_and_verify_def)
  then have "download env uuid dir True check_existing w =
           Some (if lower (md5_hexdigest env data) = lower (info_md5 info)
                 then Inr (path, info)
                 else Inl (InvalidChecksumError ''File corrupt: checksums do not match''),
                 emit [Progress ''MD5 checksumming'' (length data)] w4)"
    using assms(1,3,4)
    by (simp add: download_def download_file_def assms(2) [symmetric])
  moreover have "lower ''ABC123'' = lower ''abc123''"
    by (simp add: lower_def lower_char_def)
  ultimately show ?thesis
    using assms(6) m by (simp add: files_emit)
qed

theorem checksum_mismatch_keeps_file_witness:
  "map_option (\<lambda>(r, w). (r, files w example_path))
     (download (example_env 0 ''PycURL/7.43.0 libcurl/7.47.0'' ''evil'') example_uuid ''.'' True False
        (example_world Map.empty)) =
   Some (Inl (InvalidChecksumError ''File corrupt: checksums do not match''), Some ''evil'')
   \<and> fst (md5_compare (example_env 0 ''PycURL/7.43.0 libcurl/7.47.0'' ''good'') example_path ''ABC123''
          (2 ^ 13) (example_world [example_path \<mapsto> ''good''])) = Inr True"
proof -
  let ?env = "example_env 0 ''PycURL/7.43.0 libcurl/7.47.0'' ''evil''"
  let ?w = "example_world Map.empty"
  let ?w1 = "(emit [GetProductInfo example_uuid] ?w)\<lparr>net_calls := Suc (net_calls ?w)\<rparr>"
  let ?w2 = "emit [Print ''Downloading %s to %s'' [AJson example_uuid, AStr example_path]] ?w1"
  let ?w4 = "(emit [Transfer (info_url example_info) example_path None] ?w2)
               \<lparr>files := (files ?w2)(example_path := Some ''evil''), net_calls := Suc (net_calls ?w2)\<rparr>"
  have nofile: "files ?w2 example_path = None"
    by (simp add: emit_def example_world_def)
  have a: "check_existing_file ?env example_info example_path False ?w2 = (Inr False, ?w2)"
    using nofile by (simp add: check_existing_file_def path_exists_def)
  have b: "pycurl_workaround ?env example_path ?w2 = (None, ?w2)"
    using nofile by (simp add: pycurl_workaround_def path_exists_def)
  have c: "homura_download ?env (info_url example_info) example_path ?w2 = (None, ?w4)"
    using nofile by (simp add: homura_download_def example_env_def example_env_of_def)
  have d: "files ?w4 example_path = Some ''evil''"
    by simp
  have m: "lower (md5_hexdigest ?env ''evil'') \<noteq> lower (info_md5 example_info)"
    by (simp add: example_env_def example_env_of_def example_digest_def example_info_def lower_def lower_char_def)
  note t = checksum_mismatch_keeps_file
      [OF example_loop [of "''PycURL/7.43.0 libcurl/7.47.0''" "''evil''"] example_join a b c d]
  from conjunct1 [OF t] m
  have "download ?env example_uuid ''.'' True False ?w =
        Some (Inl (InvalidChecksumError ''File corrupt: checksums do not match''),
              emit [Progress ''MD5 checksumming'' (length ''evil'')] ?w4)"
    by simp
  then have "map_option (\<lambda>(r, w). (r, files w example_path))
     (download ?env example_uuid ''.'' True False ?w) =
     Some (Inl (InvalidChecksumError ''File corrupt: checksums do not match''), Some ''evil'')"
    by (simp add: emit_def)
  moreover have "fst (md5_compare (example_env 0 ''PycURL/7.43.0 libcurl/7.47.0'' ''good'') example_path ''ABC123''
          (2 ^ 13) (example_world [example_path \<mapsto> ''good''])) = Inr True"
    by (simp add: md5_compare_file [where data = "''good''"] example_world_def example_env_def example_env_of_def
        example_digest_def lower_def lower_char_def)
  ultimately show ?thesis by simp
qed

lemma length_big_partial: "length big_partial = 2 ^ 31"
  by (simp add: big_partial_def)

text \<open>
  Claim C2, at two versions of pycurl, with a partial file of 2 GiB on disk.
  Version 7.9.8 is below 7.43.0, but its string is greater than
  \<open>pycurl/7.43.0\<close>: the file is kept and the transfer resumes at 2 GiB.
  Version 7.100.0 is above 7.43.0, but its string is smaller: the file is
  removed and the transfer starts anew.
\<close>

theorem pycurl_workaround_compares_strings:
  "spec_version_at_most ''pycurl/7.9.8'' [7, 43, 0]
   \<and> trace (snd (download_file (example_env 0 ''PycURL/7.9.8 libcurl/7.9.8'' ''good'') example_uuid ''.''
                   False False big_info (example_world [example_path \<mapsto> big_partial]))) =
       [Print ''Downloading %s to %s'' [AJson example_uuid, AStr example_path],
        Transfer (info_url example_info) example_path (Some (2 ^ 31))]
   \<and> \<not> spec_version_at_most ''pycurl/7.100.0'' [7, 43, 0]
   \<and> trace (snd (download_file (example_env 0 ''PycURL/7.100.0 libcurl/7.100.0'' ''good'') example_uuid ''.''
                   False False big_info (example_world [example_path \<mapsto> big_partial]))) =
       [Print ''Downloading %s to %s'' [AJson example_uuid, AStr example_path],
        Remove example_path,
        Transfer (info_url example_info) example_path None]"
proof -
  have v1: "spec_version_at_most ''pycurl/7.9.8'' [7, 43, 0]"
    by (simp add: spec_version_at_most_def spec_version_numbers_def number_def digit_val_def)
  have v2: "\<not> spec_version_at_most ''pycurl/7.100.0'' [7, 43, 0]"
    by (simp add: spec_version_at_most_def spec_version_numbers_def number_def digit_val_def)
  have p: "join ''.'' (info_title example_info @ ''.zip'') = example_path"
    by (simp add: example_path_def example_info_def join_def startswith_def endswith_def)
  have k: "trace (snd (download_file (example_env 0 ''PycURL/7.9.8 libcurl/7.9.8'' ''good'') example_uuid ''.''
                   False False big_info (example_world [example_path \<mapsto> big_partial]))) =
       [Print ''Downloading %s to %s'' [AJson example_uuid, AStr example_path],
        Transfer (info_url example_info) example_path (Some (2 ^ 31))]"
    by (simp add: download_file_def Let_def p check_existing_file_def pycurl_workaround_def
        transfer_and_verify_def homura_download_def path_exists_def getsize_def emit_def
        example_world_def example_env_def example_env_of_def big_info_def length_big_partial
        split_first_def is_space_def lower_def lower_char_def)
  have r: "trace (snd (download_file (example_env 0 ''PycURL/7.100.0 libcurl/7.100.0'' ''good'') example_uuid ''.''
                   False False big_info (example_world [example_path \<mapsto> big_partial]))) =
       [Print ''Downloading %s to %s'' [AJson example_uuid, AStr example_path],
        Remove example_path,
        Transfer (info_url example_info) example_path None]"
    by (simp add: download_file_def Let_def p check_existing_file_def pycurl_workaround_def
        transfer_and_verify_def homura_download_def path_exists_def getsize_def emit_def remove_def
        example_world_def example_env_def example_env_of_def big_info_def length_big_partial
        split_first_def is_space_def lower_def lower_char_def)
  from v1 k v2 r show ?thesis by simp
qed


section \<open>download\_all: the loop of attempts\<close>

lemma getitem_not_fatal: "getitem v key = Inl e \<Longrightarrow> \<not> fatal e"
  by (auto simp: getitem_def split: json.splits option.splits)

lemma attempts_done:
  "attempts dl i product title dir c ce path pinfo True rem w log = Some (Inr (path, pinfo), w, log)"
  by (subst attempts.simps) simp

lemma attempts_exhausted:
  "rem \<le> 0 \<Longrightarrow>
   attempts dl i product title dir c ce path pinfo succ rem w log = Some (Inr (path, pinfo), w, log)"
  by (subst attempts.simps) simp

lemma attempts_no_id:
  "0 < rem \<Longrightarrow> getitem product ''id'' = Inl e \<Longrightarrow>
   attempts dl i product title dir c ce path pinfo False rem w log =
   attempts dl i product title dir c ce path pinfo False (rem - 1) (handle_failure title e w) log"
  by (subst attempts.simps) (simp add: getitem_not_fatal)

lemma attempts_never:
  "0 < rem \<Longrightarrow> getitem product ''id'' = Inr uuid \<Longrightarrow> dl uuid dir c ce w = None \<Longrightarrow>
   attempts dl i product title dir c ce path pinfo False rem w log = None"
  by (subst attempts.simps) simp

lemma attempts_success:
  "0 < rem \<Longrightarrow> getitem product ''id'' = Inr uuid \<Longrightarrow>
   dl uuid dir c ce w = Some (Inr (path', info), w') \<Longrightarrow>
   attempts dl i product title dir c ce path pinfo False rem w log =
   Some (Inr (path', Some info), w', log @ [Called i uuid])"
  by (subst attempts.simps) (simp add: attempts_done)

lemma attempts_fatal:
  "0 < rem \<Longrightarrow> getitem product ''id'' = Inr uuid \<Longrightarrow>
   dl uuid dir c ce w = Some (Inl e, w') \<Longrightarrow> fatal e \<Longrightarrow>
   attempts dl i product title dir c ce path pinfo False rem w log =
   Some (Inl e, w', log @ [Called i uuid])"
  by (subst attempts.simps) simp

lemma attempts_retry:
  "0 < rem \<Longrightarrow> getitem product ''id'' = Inr uuid \<Longrightarrow>
   dl uuid dir c ce w = Some (Inl e, w') \<Longrightarrow> \<not> fatal e \<Longrightarrow>
   attempts dl i product title dir c ce path pinfo False rem w log =
   attempts dl i product title dir c ce path pinfo False (rem - 1)
     (handle_failure title e w') (log @ [Called i uuid])"
  by (subst attempts.simps) simp

lemma calls_for_append: "calls_for k (xs @ ys) = calls_for k xs @ calls_for k ys"
  by (simp add: calls_for_def)

lemma calls_for_Called: "calls_for k (map (Called i) us) = (if i = k then us else [])"
  by (induction us) (simp_all add: calls_for_def)

lemma calls_for_other: "\<forall>s\<in>set log. step_index s \<noteq> k \<Longrightarrow> calls_for k log = []"
proof (induction log)
  case Nil
  then show ?case by (simp add: calls_for_def)
next
  case (Cons s log)
  then show ?case by (cases s) (simp_all add: calls_for_def)
qed

lemma attempts_structure:
  "attempts dl i product title dir c ce path pinfo False rem w log = Some (r, w', log') \<Longrightarrow>
   \<exists>calls. log' = log @ map (Called i) calls \<and> length calls \<le> nat rem \<and>
           (\<forall>e. r = Inl e \<longrightarrow> fatal e)"
proof (induction "nat rem" arbitrary: rem w log)
  case 0
  then have "rem \<le> 0" by simp
  from attempts_exhausted [OF this, of dl i product title dir c ce path pinfo False w log] "0.prems"
  show ?case by auto
next
  case (Suc n)
  then have pos: "0 < rem" and n: "n = nat (rem - 1)" by simp_all
  show ?case
  proof (cases "getitem product ''id''")
    case (Inl e)
    from attempts_no_id [OF pos Inl] Suc.prems
    have "attempts dl i product title dir c ce path pinfo False (rem - 1) (handle_failure title e w) log
          = Some (r, w', log')" by simp
    from Suc.hyps(1) [OF n this] obtain calls where
      "log' = log @ map (Called i) calls" "length calls \<le> nat (rem - 1)" "\<forall>e. r = Inl e \<longrightarrow> fatal e"
      by blast
    then show ?thesis using pos by (intro exI [of _ calls]) simp
  next
    case (Inr uuid)
    show ?thesis
    proof (cases "dl uuid dir c ce w")
      case None
      from attempts_never [where dl = dl, OF pos Inr None] Suc.prems show ?thesis by simp
    next
      case (Some rw)
      obtain r1 w1 where rw: "rw = (r1, w1)" by (cases rw)
      show ?thesis
      proof (cases r1)
        case (Inl e)
        show ?thesis
        proof (cases "fatal e")
          case True
          from attempts_fatal [where dl = dl, OF pos Inr _ True] Some rw Inl Suc.prems
          have "r = Inl e" "log' = log @ [Called i uuid]" by simp_all
          then show ?thesis using True pos by (intro exI [of _ "[uuid]"]) simp
        next
          case False
          from attempts_retry [where dl = dl, OF pos Inr _ False] Some rw Inl Suc.prems
          have "attempts dl i product title dir c ce path pinfo False (rem - 1)
                  (handle_failure title e w1) (log @ [Called i uuid]) = Some (r, w', log')"
            by simp
          from Suc.hyps(1) [OF n this] obtain calls where
            "log' = (log @ [Called i uuid]) @ map (Called i) calls" "length calls \<le> nat (rem - 1)"
            "\<forall>e. r = Inl e \<longrightarrow> fatal e"
            by blast
          then show ?thesis using pos by (intro exI [of _ "uuid # calls"]) simp
        qed
      next
        case (Inr pi)
        obtain p info where pi: "pi = (p, info)" by (cases pi)
        from attempts_success [where dl = dl, OF pos \<open>getitem product ''id'' = Inr uuid\<close>] Some rw Inr pi Suc.prems
        have "r = Inr (p, Some info)" "log' = log @ [Called i uuid]" by simp_all
        then show ?thesis using pos by (intro exI [of _ "[uuid]"]) simp
      qed
    qed
  qed
qed

lemma attempts_all_fail:
  assumes "getitem product ''id'' = Inr uuid"
    and "\<forall>w0. \<exists>e w0'. dl uuid dir c ce w0 = Some (Inl e, w0') \<and> \<not> fatal e"
  shows "\<exists>w'. attempts dl i product title dir c ce path pinfo False rem w log =
           Some (Inr (path, pinfo), w', log @ replicate (nat rem) (Called i uuid))"
proof (induction "nat rem" arbitrary: rem w log)
  case 0
  then have "rem \<le> 0" by simp
  from attempts_exhausted [OF this] 0 show ?case by simp
next
  case (Suc n)
  then have pos: "0 < rem" and n: "n = nat (rem - 1)" by simp_all
  from assms(2) obtain e w1 where d: "dl uuid dir c ce w = Some (Inl e, w1)" "\<not> fatal e"
    by blast
  from Suc.hyps(1) [OF n, of "handle_failure title e w1" "log @ [Called i uuid]"]
  obtain w' where "attempts dl i product title dir c ce path pinfo False (rem - 1)
       (handle_failure title e w1) (log @ [Called i uuid]) =
      Some (Inr (path, pinfo), w', (log @ [Called i uuid]) @ replicate (nat (rem - 1)) (Called i uuid))"
    by blast
  moreover have "replicate (nat rem) (Called i uuid) =
      Called i uuid # replicate (nat (rem - 1)) (Called i uuid)"
    using Suc.hyps(2) n by (metis replicate_Suc)
  ultimately show ?case
    using attempts_retry [where dl = dl, OF pos assms(1) d] by simp
qed

lemma attempts_returns:
  assumes "\<forall>uuid w0. \<exists>r w0'. dl uuid dir c ce w0 = Some (r, w0') \<and> (\<forall>e. r = Inl e \<longrightarrow> \<not> fatal e)"
  shows "\<exists>q v w' log'. attempts dl i product title dir c ce path pinfo False rem w log =
           Some (Inr (q, v), w', log')"
proof (induction "nat rem" arbitrary: rem w log)
  case 0
  then have "rem \<le> 0" by simp
  from attempts_exhausted [OF this] show ?case by simp
next
  case (Suc n)
  then have pos: "0 < rem" and n: "n = nat (rem - 1)" by simp_all
  show ?case
  proof (cases "getitem product ''id''")
    case (Inl e)
    from attempts_no_id [OF pos Inl] Suc.hyps(1) [OF n] show ?thesis by simp
  next
    case (Inr uuid)
    from assms obtain r w1 where d: "dl uuid dir c ce w = Some (r, w1)" "\<forall>e. r = Inl e \<longrightarrow> \<not> fatal e"
      by blast
    show ?thesis
    proof (cases r)
      case (Inl e)
      with d have "\<not> fatal e" by simp
      from attempts_retry [where dl = dl, OF pos Inr _ this] d Inl Suc.hyps(1) [OF n] show ?thesis by simp
    next
      case r: (Inr pi)
      obtain p info where "pi = (p, info)" by (cases pi)
      with attempts_success [where dl = dl, OF pos Inr] d r show ?thesis by simp
    qed
  qed
qed

section \<open>download\_all: the loop over the products\<close>

lemma fold_store_Called: "fold store_step (map (Called i) us) result = result"
  by (induction us) simp_all

lemma fold_store_other:
  "\<forall>s\<in>set post. \<forall>j v. s \<noteq> Stored j path v \<Longrightarrow> fold store_step post result path = result path"
proof (induction post arbitrary: result)
  case Nil
  then show ?case by simp
next
  case (Cons s post)
  then show ?case by (cases s) auto
qed

lemma calls_for_simps:
  "calls_for k [] = []"
  "calls_for k (Stored j path info # log) = calls_for k log"
  "calls_for k (Called j uuid # log) = (if j = k then [uuid] else []) @ calls_for k log"
  by (simp_all add: calls_for_def)

lemma products_structure:
  "download_products dl dir m c ce n i ps result w log = Some (r, w', log') \<Longrightarrow>
   \<exists>ext. log' = log @ ext \<and> (\<forall>s\<in>set ext. i \<le> step_index s) \<and>
         (\<forall>k. length (calls_for k ext) \<le> nat m) \<and>
         (\<forall>res. r = Inr res \<longrightarrow> res = fold store_step ext result)"
proof (induction ps arbitrary: i result w log)
  case Nil
  then show ?case by (intro exI [of _ "[]"]) (auto simp: calls_for_simps)
next
  case (Cons p rest)
  show ?case
  proof (cases "product_title p")
    case (Inl e)
    with Cons.prems show ?thesis by (intro exI [of _ "[]"]) (auto simp: calls_for_simps)
  next
    case (Inr t)
    show ?thesis
    proof (cases "attempts dl i p t dir c ce (join dir (t @ ''.zip'')) None False m w log")
      case None
      with Cons.prems Inr show ?thesis by simp
    next
      case (Some a)
      obtain ra wa la where a: "a = (ra, wa, la)" by (cases a)
      from attempts_structure [OF Some [unfolded a]] obtain calls where
        calls: "la = log @ map (Called i) calls" "length calls \<le> nat m"
        by blast
      show ?thesis
      proof (cases ra)
        case (Inl e)
        with Cons.prems Inr Some a have "r = Inl e" "log' = la" by simp_all
        with calls show ?thesis
          by (intro exI [of _ "map (Called i) calls"]) (auto simp: calls_for_Called)
      next
        case ra: (Inr pv)
        obtain path info where pv: "pv = (path, info)" by (cases pv)
        let ?w = "emit [Print ''{}/{} products downloaded'' [AInt (int i + 1), AInt (int n)]] wa"
        from Cons.prems Inr Some a ra pv
        have "download_products dl dir m c ce n (Suc i) rest (result(path \<mapsto> info)) ?w
                (la @ [Stored i path info]) = Some (r, w', log')"
          by simp
        from Cons.IH [OF this] obtain ext where ext:
          "log' = (la @ [Stored i path info]) @ ext" "\<forall>s\<in>set ext. Suc i \<le> step_index s"
          "\<forall>k. length (calls_for k ext) \<le> nat m"
          "\<forall>res. r = Inr res \<longrightarrow> res = fold store_step ext (result(path \<mapsto> info))"
          by blast
        let ?ext = "map (Called i) calls @ [Stored i path info] @ ext"
        have 1: "log' = log @ ?ext" using ext(1) calls(1) by simp
        have 2: "\<forall>s\<in>set ?ext. i \<le> step_index s" using ext(2) by auto
        have 3: "\<forall>k. length (calls_for k ?ext) \<le> nat m"
        proof
          fix k
          show "length (calls_for k ?ext) \<le> nat m"
          proof (cases "k = i")
            case True
            have "\<forall>s\<in>set ext. step_index s \<noteq> k" using ext(2) True by auto
            then have "calls_for k ext = []" by (rule calls_for_other)
            then show ?thesis using calls(2) True
              by (simp add: calls_for_append calls_for_Called calls_for_simps)
          next
            case False
            then show ?thesis using ext(3)
              by (simp add: calls_for_append calls_for_Called calls_for_simps)
          qed
        qed
        have 4: "\<forall>res. r = Inr res \<longrightarrow> res = fold store_step ?ext result"
          using ext(4) by (simp add: fold_store_Called)
        from 1 2 3 4 show ?thesis by blast
      qed
    qed
  qed
qed

lemma products_failing_product:
  "download_products dl dir m c ce n i ps result w log = Some (Inr res, w', log') \<Longrightarrow>
   k < length ps \<Longrightarrow> product_title (ps ! k) = Inr t \<Longrightarrow> getitem (ps ! k) ''id'' = Inr u \<Longrightarrow>
   \<forall>w0. \<exists>e w0'. dl u dir c ce w0 = Some (Inl e, w0') \<and> \<not> fatal e \<Longrightarrow>
   \<exists>pre post. log' = log @ pre @ replicate (nat m) (Called (i + k) u) @
                     [Stored (i + k) (join dir (t @ ''.zip'')) None] @ post \<and>
     (\<forall>s\<in>set pre. step_index s < i + k) \<and> (\<forall>s\<in>set post. i + k < step_index s) \<and>
     res = fold store_step post ((fold store_step pre result)(join dir (t @ ''.zip'') \<mapsto> None))"
proof (induction ps arbitrary: i k result w log)
  case Nil
  then show ?case by simp
next
  case (Cons p rest)
  let ?path = "join dir (t @ ''.zip'')"
  show ?case
  proof (cases k)
    case 0
    with Cons.prems have t: "product_title p = Inr t" and u: "getitem p ''id'' = Inr u"
      by simp_all
    from attempts_all_fail [where dl = dl, OF u Cons.prems(5), of i t ?path None m w log]
    obtain wa where wa: "attempts dl i p t dir c ce ?path None False m w log =
           Some (Inr (?path, None), wa, log @ replicate (nat m) (Called i u))"
      by blast
    let ?w = "emit [Print ''{}/{} products downloaded'' [AInt (int i + 1), AInt (int n)]] wa"
    from Cons.prems(1) t wa
    have "download_products dl dir m c ce n (Suc i) rest (result(?path \<mapsto> None)) ?w
            ((log @ replicate (nat m) (Called i u)) @ [Stored i ?path None]) = Some (Inr res, w', log')"
      by simp
    from products_structure [OF this] obtain ext where ext:
      "log' = ((log @ replicate (nat m) (Called i u)) @ [Stored i ?path None]) @ ext"
      "\<forall>s\<in>set ext. Suc i \<le> step_index s"
      "res = fold store_step ext (result(?path \<mapsto> None))"
      by blast
    have e1: "log' = log @ [] @ replicate (nat m) (Called (i + k) u) @
                     [Stored (i + k) ?path None] @ ext"
      using ext(1) 0 by simp
    have e2: "\<forall>s\<in>set []. step_index s < i + k" by simp
    have e3: "\<forall>s\<in>set ext. i + k < step_index s" using ext(2) 0 by auto
    have e4: "res = fold store_step ext ((fold store_step [] result)(?path \<mapsto> None))"
      using ext(3) by simp
    from e1 e2 e3 e4 show ?thesis by blast
  next
    case (Suc k')
    from Cons.prems(1) obtain t' where t': "product_title p = Inr t'"
      by (cases "product_title p") auto
    let ?path' = "join dir (t' @ ''.zip'')"
    from Cons.prems(1) t' obtain a where
      a: "attempts dl i p t' dir c ce ?path' None False m w log = Some a"
      by (cases "attempts dl i p t' dir c ce ?path' None False m w log") auto
    obtain ra wa la where ra: "a = (ra, wa, la)" by (cases a)
    from Cons.prems(1) t' a ra obtain q v where qv: "ra = Inr (q, v)"
      by (cases ra) auto
    from attempts_structure [OF a [unfolded ra]] obtain calls where
      calls: "la = log @ map (Called i) calls" by blast
    let ?w = "emit [Print ''{}/{} products downloaded'' [AInt (int i + 1), AInt (int n)]] wa"
    from Cons.prems(1) t' a ra qv
    have run: "download_products dl dir m c ce n (Suc i) rest (result(q \<mapsto> v)) ?w
            (la @ [Stored i q v]) = Some (Inr res, w', log')"
      by simp
    from Cons.prems Suc have k': "k' < length rest" "product_title (rest ! k') = Inr t"
      "getitem (rest ! k') ''id'' = Inr u"
      by simp_all
    from Cons.IH [OF run k' Cons.prems(5)] obtain pre post where pp:
      "log' = (la @ [Stored i q v]) @ pre @ replicate (nat m) (Called (Suc i + k') u) @
                     [Stored (Suc i + k') ?path None] @ post"
      "\<forall>s\<in>set pre. step_index s < Suc i + k'" "\<forall>s\<in>set post. Suc i + k' < step_index s"
      "res = fold store_step post ((fold store_step pre (result(q \<mapsto> v)))(?path \<mapsto> None))"
      by blast
    let ?pre = "map (Called i) calls @ [Stored i q v] @ pre"
    have "log' = log @ ?pre @ replicate (nat m) (Called (i + k) u) @ [Stored (i + k) ?path None] @ post"
      using pp(1) calls Suc by simp
    moreover have "\<forall>s\<in>set ?pre. step_index s < i + k"
      using pp(2) Suc by auto
    moreover have "\<forall>s\<in>set post. i + k < step_index s"
      using pp(3) Suc by auto
    moreover have "res = fold store_step post ((fold store_step ?pre result)(?path \<mapsto> None))"
      using pp(4) by (simp add: fold_store_Called)
    ultimately show ?thesis by blast
  qed
qed

lemma products_complete:
  assumes "\<forall>uuid w0. \<exists>r w0'. dl uuid dir c ce w0 = Some (r, w0') \<and> (\<forall>e. r = Inl e \<longrightarrow> \<not> fatal e)"
  shows "\<forall>p\<in>set ps. \<exists>t. product_title p = Inr t \<Longrightarrow>
     \<exists>res w' ext. download_products dl dir m c ce n i ps result w log = Some (Inr res, w', log @ ext) \<and>
        (\<forall>j<length ps. \<exists>q v. Stored (i + j) q v \<in> set ext)"
proof (induction ps arbitrary: i result w log)
  case Nil
  then show ?case by simp
next
  case (Cons p rest)
  then obtain t where t: "product_title p = Inr t" by auto
  let ?path = "join dir (t @ ''.zip'')"
  from attempts_returns [where dl = dl, OF assms, of i p t ?path None m w log]
  obtain q v wa la where a: "attempts dl i p t dir c ce ?path None False m w log =
      Some (Inr (q, v), wa, la)" by blast
  from attempts_structure [OF a] obtain calls where calls: "la = log @ map (Called i) calls"
    by blast
  let ?w = "emit [Print ''{}/{} products downloaded'' [AInt (int i + 1), AInt (int n)]] wa"
  from Cons.prems have "\<forall>p\<in>set rest. \<exists>t. product_title p = Inr t" by simp
  from Cons.IH [OF this, of "Suc i" "result(q \<mapsto> v)" ?w "la @ [Stored i q v]"]
  obtain res w' ext where r:
    "download_products dl dir m c ce n (Suc i) rest (result(q \<mapsto> v)) ?w (la @ [Stored i q v]) =
       Some (Inr res, w', (la @ [Stored i q v]) @ ext)"
    "\<forall>j<length rest. \<exists>q v. Stored (Suc i + j) q v \<in> set ext"
    by blast
  let ?ext = "map (Called i) calls @ [Stored i q v] @ ext"
  have "download_products dl dir m c ce n i (p # rest) result w log = Some (Inr res, w', log @ ?ext)"
    using t a r(1) calls by simp
  moreover have "\<forall>j<length (p # rest). \<exists>q v. Stored (i + j) q v \<in> set ?ext"
  proof (intro allI impI)
    fix j assume j: "j < length (p # rest)"
    show "\<exists>q v. Stored (i + j) q v \<in> set ?ext"
    proof (cases j)
      case 0
      then show ?thesis by auto
    next
      case (Suc j')
      with j r(2) obtain q' v' where "Stored (Suc i + j') q' v' \<in> set ext" by auto
      with Suc show ?thesis by auto
    qed
  qed
  ultimately show ?case by blast
qed

lemma example_found_products:
  "get_products (example_found entries) =
     (Inr (JArr entries), (example_found entries)\<lparr>products := Some (JArr entries)\<rparr>)"
  by (simp add: get_products_def example_found_def example_search_def example_response_def
      example_world_def getitem_def is_dict_def)

lemmas run_defs = download_all_def example_found_products as_list_def product_title_def
  getitem_def example_entry_def flaky_download_def handle_failure_def emit_def
  join_def startswith_def endswith_def example_info_def example_path_def


text \<open>
  The attempt budget of \<open>download_all\<close>. Whatever the products found and
  whatever \<open>max_attempts\<close>, a batch that returns or raises has called the
  downloader at most \<open>max(max_attempts, 0)\<close> times for each product. When
  the batch returns a dict, an entry has a string title and an id, and every
  call of the downloader for that id raises a non-fatal exception, the
  downloader was called exactly \<open>max(max_attempts, 0)\<close> times for that entry
  and None was assigned under its path \<open>directory/title.zip\<close>; the returned
  dict has None there when no later assignment uses the same path. When
  every entry has a string title and every call of the downloader returns,
  with a result or with a non-fatal exception, the batch returns a dict
  after one assignment for every product.
\<close>

theorem download_all_attempt_budget:
  assumes gp: "get_products w = (Inr (JArr ps), w1)"
  shows "(\<forall>r w' log k. download_all dl dir m c ce w = Some (r, w', log) \<longrightarrow>
            length (calls_for k log) \<le> nat m)
   \<and> (\<forall>res w' log k t u.
         download_all dl dir m c ce w = Some (Inr res, w', log) \<longrightarrow> k < length ps \<longrightarrow>
         product_title (ps ! k) = Inr t \<longrightarrow> getitem (ps ! k) ''id'' = Inr u \<longrightarrow>
         (\<forall>w0. \<exists>e w0'. dl u dir c ce w0 = Some (Inl e, w0') \<and> \<not> fatal e) \<longrightarrow>
         calls_for k log = replicate (nat m) u \<and>
         Stored k (join dir (t @ ''.zip'')) None \<in> set log \<and>
         ((\<forall>j q v. Stored j q v \<in> set log \<longrightarrow> k < j \<longrightarrow> q \<noteq> join dir (t @ ''.zip'')) \<longrightarrow>
          res (join dir (t @ ''.zip'')) = Some None))
   \<and> ((\<forall>p\<in>set ps. \<exists>t. product_title p = Inr t) \<longrightarrow>
       (\<forall>uuid w0. \<exists>r w0'. dl uuid dir c ce w0 = Some (r, w0') \<and> (\<forall>e. r = Inl e \<longrightarrow> \<not> fatal e)) \<longrightarrow>
       (\<exists>res w' log. download_all dl dir m c ce w = Some (Inr res, w', log) \<and>
          (\<forall>k<length ps. \<exists>q v. Stored k q v \<in> set log)))"
proof -
  let ?w = "emit [Print ''Will download %d products'' [AInt (int (length ps))]] w1"
  have da: "download_all dl dir m c ce w =
      download_products dl dir m c ce (length ps) 0 ps Map.empty ?w []"
    using gp by (simp add: download_all_def as_list_def)
  have A: "\<forall>r w' log k. download_all dl dir m c ce w = Some (r, w', log) \<longrightarrow>
            length (calls_for k log) \<le> nat m"
  proof (intro allI impI)
    fix r w' log k
    assume "download_all dl dir m c ce w = Some (r, w', log)"
    with da have "download_products dl dir m c ce (length ps) 0 ps Map.empty ?w [] = Some (r, w', log)"
      by simp
    from products_structure [OF this] show "length (calls_for k log) \<le> nat m" by auto
  qed
  have B: "\<forall>res w' log k t u.
         download_all dl dir m c ce w = Some (Inr res, w', log) \<longrightarrow> k < length ps \<longrightarrow>
         product_title (ps ! k) = Inr t \<longrightarrow> getitem (ps ! k) ''id'' = Inr u \<longrightarrow>
         (\<forall>w0. \<exists>e w0'. dl u dir c ce w0 = Some (Inl e, w0') \<and> \<not> fatal e) \<longrightarrow>
         calls_for k log = replicate (nat m) u \<and>
         Stored k (join dir (t @ ''.zip'')) None \<in> set log \<and>
         ((\<forall>j q v. Stored j q v \<in> set log \<longrightarrow> k < j \<longrightarrow> q \<noteq> join dir (t @ ''.zip'')) \<longrightarrow>
          res (join dir (t @ ''.zip'')) = Some None)"
  proof (intro allI impI)
    fix res w' log k t u
    let ?path = "join dir (t @ ''.zip'')"
    assume run: "download_all dl dir m c ce w = Some (Inr res, w', log)"
      and k: "k < length ps" and t: "product_title (ps ! k) = Inr t"
      and u: "getitem (ps ! k) ''id'' = Inr u"
      and f: "\<forall>w0. \<exists>e w0'. dl u dir c ce w0 = Some (Inl e, w0') \<and> \<not> fatal e"
    from run da
    have "download_products dl dir m c ce (length ps) 0 ps Map.empty ?w [] = Some (Inr res, w', log)"
      by simp
    from products_failing_product [where dl = dl, OF this k t u f] obtain pre post where pp:
      "log = pre @ replicate (nat m) (Called k u) @ [Stored k ?path None] @ post"
      "\<forall>s\<in>set pre. step_index s < k" "\<forall>s\<in>set post. k < step_index s"
      "res = fold store_step post ((fold store_step pre Map.empty)(?path \<mapsto> None))"
      by auto
    have "\<forall>s\<in>set pre. step_index s \<noteq> k" using pp(2) by auto
    then have c1: "calls_for k pre = []" by (rule calls_for_other)
    have "\<forall>s\<in>set post. step_index s \<noteq> k" using pp(3) by auto
    then have c2: "calls_for k post = []" by (rule calls_for_other)
    have c3: "calls_for k (replicate (nat m) (Called k u)) = replicate (nat m) u"
      using calls_for_Called [of k k "replicate (nat m) u"] by (simp add: map_replicate)
    have calls: "calls_for k log = replicate (nat m) u"
      by (simp add: pp(1) calls_for_append c1 c2 c3 calls_for_simps)
    have stored: "Stored k ?path None \<in> set log"
      by (simp add: pp(1))
    have last: "res ?path = Some None"
      if no: "\<forall>j q v. Stored j q v \<in> set log \<longrightarrow> k < j \<longrightarrow> q \<noteq> ?path"
    proof -
      have "\<forall>s\<in>set post. \<forall>j v. s \<noteq> Stored j ?path v"
      proof (intro ballI allI notI)
        fix s j v assume s: "s \<in> set post" "s = Stored j ?path v"
        with pp(3) have "k < j" by auto
        moreover from s pp(1) have "Stored j ?path v \<in> set log" by simp
        ultimately show False using no by blast
      qed
      from fold_store_other [OF this] pp(4) show ?thesis by simp
    qed
    from calls stored last
    show "calls_for k log = replicate (nat m) u \<and> Stored k ?path None \<in> set log \<and>
         ((\<forall>j q v. Stored j q v \<in> set log \<longrightarrow> k < j \<longrightarrow> q \<noteq> ?path) \<longrightarrow> res ?path = Some None)"
      by blast
  qed
  have D: "(\<forall>p\<in>set ps. \<exists>t. product_title p = Inr t) \<longrightarrow>
       (\<forall>uuid w0. \<exists>r w0'. dl uuid dir c ce w0 = Some (r, w0') \<and> (\<forall>e. r = Inl e \<longrightarrow> \<not> fatal e)) \<longrightarrow>
       (\<exists>res w' log. download_all dl dir m c ce w = Some (Inr res, w', log) \<and>
          (\<forall>k<length ps. \<exists>q v. Stored k q v \<in> set log))"
  proof (intro impI)
    assume wf: "\<forall>p\<in>set ps. \<exists>t. product_title p = Inr t"
      and tot: "\<forall>uuid w0. \<exists>r w0'. dl uuid dir c ce w0 = Some (r, w0') \<and> (\<forall>e. r = Inl e \<longrightarrow> \<not> fatal e)"
    from products_complete [where dl = dl and dir = dir and c = c and ce = ce and m = m
        and n = "length ps" and i = 0 and result = Map.empty and w = ?w and log = "[]", OF tot wf] da
    show "\<exists>res w' log. download_all dl dir m c ce w = Some (Inr res, w', log) \<and>
          (\<forall>k<length ps. \<exists>q v. Stored k q v \<in> set log)"
      by simp
  qed
  from A B D show ?thesis by blast
qed

theorem download_all_attempt_budget_witness:
  "\<exists>res w' log.
     download_all flaky_download ''.'' 3 False False
       (example_found [example_entry ''S1B_IW_SLC__1SDV'' ''a'',
                       example_entry ''S1A_EW_GRDH_1SDH'' ''b'']) = Some (Inr res, w', log)
     \<and> calls_for 0 log = [JStr ''a'', JStr ''a'', JStr ''a'']
     \<and> length (calls_for 1 log) \<le> 3
     \<and> res ''./S1B_IW_SLC__1SDV.zip'' = Some None
     \<and> res example_path = Some (Some example_info)"
proof -
  let ?ps = "[example_entry ''S1B_IW_SLC__1SDV'' ''a'', example_entry ''S1A_EW_GRDH_1SDH'' ''b'']"
  let ?w = "example_found ?ps"
  let ?log = "[Called 0 (JStr ''a''), Called 0 (JStr ''a''), Called 0 (JStr ''a''),
            Stored 0 ''./S1B_IW_SLC__1SDV.zip'' None,
            Called 1 (JStr ''b''), Stored 1 example_path (Some example_info)]"
  note t = download_all_attempt_budget [OF example_found_products [of ?ps],
      where dl = flaky_download and dir = "''.''" and m = 3 and c = False and ce = False]
  obtain r w' log where run: "download_all flaky_download ''.'' 3 False False ?w = Some (r, w', log)"
    and log: "log = ?log" and r: "case r of Inl e \<Rightarrow> False | Inr res \<Rightarrow> res example_path = Some (Some example_info)"
    by (simp add: run_defs attempts.simps)
  from r obtain res where res: "r = Inr res" "res example_path = Some (Some example_info)"
    by (cases r) auto
  have k: "0 < length ?ps" by simp
  have ti: "product_title (?ps ! 0) = Inr ''S1B_IW_SLC__1SDV''"
    by (simp add: product_title_def getitem_def example_entry_def)
  have u: "getitem (?ps ! 0) ''id'' = Inr (JStr ''a'')"
    by (simp add: getitem_def example_entry_def)
  have f: "\<forall>w0. \<exists>e w0'. flaky_download (JStr ''a'') ''.'' False False w0 = Some (Inl e, w0') \<and> \<not> fatal e"
    by (simp add: flaky_download_def)
  have p: "join ''.'' ''S1B_IW_SLC__1SDV.zip'' = ''./S1B_IW_SLC__1SDV.zip''"
    by (simp add: join_def startswith_def endswith_def)
  have no: "\<forall>j q v. Stored j q v \<in> set log \<longrightarrow> 0 < j \<longrightarrow> q \<noteq> ''./S1B_IW_SLC__1SDV.zip''"
    by (auto simp add: log example_path_def)
  from conjunct1 [OF t] run have b: "length (calls_for 1 log) \<le> 3"
    by (metis nat_numeral)
  from conjunct1 [OF conjunct2 [OF t]] run [unfolded res(1)] k ti u f
  have "calls_for 0 log = replicate (nat 3) (JStr ''a'') \<and>
         Stored 0 (join ''.'' (''S1B_IW_SLC__1SDV'' @ ''.zip'')) None \<in> set log \<and>
         ((\<forall>j q v. Stored j q v \<in> set log \<longrightarrow> 0 < j \<longrightarrow> q \<noteq> join ''.'' (''S1B_IW_SLC__1SDV'' @ ''.zip'')) \<longrightarrow>
          res (join ''.'' (''S1B_IW_SLC__1SDV'' @ ''.zip'')) = Some None)"
    by blast
  with no have "calls_for 0 log = [JStr ''a'', JStr ''a'', JStr ''a'']"
      "res ''./S1B_IW_SLC__1SDV.zip'' = Some None"
    by (simp_all add: p numeral_3_eq_3)
  with run res b show ?thesis by blast
qed

text \<open>
  Claim C1, at two products that share a title. The docstring of
  \<open>download_all\<close> promises a dict "with an entry for each product", whose
  product info "is set to None if downloading the product failed". Two
  entries of the search have the same title; every download of the first
  raises a transport error, the download of the second succeeds. The first
  product is tried three times and None is assigned under its path, then the
  second product's metadata is assigned under the same path: the returned
  dict has that one key, with the second product's metadata, and no None
  entry for the product that failed.
\<close>

theorem download_all_failed_entry_overwritten:
  "(\<forall>w0. flaky_download (JStr ''a'') ''.'' False False w0 =
           Some (Inl (OtherException ''ConnectionError''), w0))
   \<and> \<not> fatal (OtherException ''ConnectionError'')
   \<and> map_option (\<lambda>(r, w, log). (case r of Inl e \<Rightarrow> None | Inr res \<Rightarrow> Some (res example_path, dom res), log))
       (download_all flaky_download ''.'' 3 False False
          (example_found [example_entry ''S1A_EW_GRDH_1SDH'' ''a'',
                          example_entry ''S1A_EW_GRDH_1SDH'' ''b''])) =
     Some (Some (Some (Some example_info), {example_path}),
           [Called 0 (JStr ''a''), Called 0 (JStr ''a''), Called 0 (JStr ''a''),
            Stored 0 example_path None,
            Called 1 (JStr ''b''), Stored 1 example_path (Some example_info)])"
  by (simp add: run_defs attempts.simps)

text \<open>
  Claim C8. An exception of one of the four fatal classes raised by a call of
  the downloader leaves the loop of attempts at once, with no further call and
  no entry stored, and an exception that leaves the loop of attempts is
  always a fatal one and ends the loop over the products, whatever products
  remain. Every other exception is caught: a line is printed, one attempt is
  used up, and the loop goes on.
\<close>

theorem fatal_errors_abort_batch:
  assumes "0 < remaining" and "getitem product ''id'' = Inr uuid"
    and "dl uuid dir c ce w = Some (Inl e, w')"
  shows "(fatal e \<longrightarrow>
           attempts dl i product title dir c ce path pinfo False remaining w log =
             Some (Inl e, w', log @ [Called i uuid]))
    \<and> (\<not> fatal e \<longrightarrow>
           attempts dl i product title dir c ce path pinfo False remaining w log =
             attempts dl i product title dir c ce path pinfo False (remaining - 1)
               (handle_failure title e w') (log @ [Called i uuid])
         \<and> trace (handle_failure title e w') =
             trace w' @ (case e of
                           InvalidChecksumError msg \<Rightarrow>
                             [Print ''Invalid checksum. The downloaded file is corrupted.'' []]
                         | _ \<Rightarrow> [PrintErr ''There was an error downloading %s'' [AStr title],
                                 PrintExc e]))
    \<and> (\<forall>e1 w1 log1. product_title product = Inr title \<longrightarrow>
          attempts dl i product title dir c ce (join dir (title @ ''.zip'')) None False m w0 log0 =
            Some (Inl e1, w1, log1) \<longrightarrow>
          fatal e1 \<and>
          download_products dl dir m c ce n i (product # rest) result w0 log0 =
            Some (Inl e1, w1, log1))"
proof (intro conjI impI allI)
  assume "fatal e"
  from attempts_fatal [where dl = dl, OF assms this]
  show "attempts dl i product title dir c ce path pinfo False remaining w log =
             Some (Inl e, w', log @ [Called i uuid])" .
next
  assume "\<not> fatal e"
  from attempts_retry [where dl = dl, OF assms this]
  show "attempts dl i product title dir c ce path pinfo False remaining w log =
             attempts dl i product title dir c ce path pinfo False (remaining - 1)
               (handle_failure title e w') (log @ [Called i uuid])" .
next
  show "trace (handle_failure title e w') =
             trace w' @ (case e of
                           InvalidChecksumError msg \<Rightarrow>
                             [Print ''Invalid checksum. The downloaded file is corrupted.'' []]
                         | _ \<Rightarrow> [PrintErr ''There was an error downloading %s'' [AStr title],
                                 PrintExc e])"
    by (cases e) (simp_all add: handle_failure_def emit_def)
next
  fix e1 w1 log1
  assume "product_title product = Inr title"
    and a: "attempts dl i product title dir c ce (join dir (title @ ''.zip'')) None False m w0 log0 =
            Some (Inl e1, w1, log1)"
  then show "download_products dl dir m c ce n i (product # rest) result w0 log0 =
            Some (Inl e1, w1, log1)"
    by simp
  from attempts_structure [OF a] show "fatal e1" by blast
qed

theorem fatal_errors_abort_batch_witness:
  "map_option (\<lambda>(r, w, log). (r, log))
     (download_all flaky_download ''.'' 3 False False
        (example_found [example_entry ''S1B_IW_SLC__1SDV'' ''k'',
                        example_entry ''S1A_EW_GRDH_1SDH'' ''b''])) =
   Some (Inl KeyboardInterrupt, [Called 0 (JStr ''k'')])
   \<and> map_option (\<lambda>(r, w, log). (r, trace w, log))
     (attempts flaky_download 0 (example_entry ''S1B_IW_SLC__1SDV'' ''a'') ''S1B_IW_SLC__1SDV''
        ''.'' False False ''./S1B_IW_SLC__1SDV.zip'' None False 1 (example_world Map.empty) []) =
   Some (Inr (''./S1B_IW_SLC__1SDV.zip'', None),
         [PrintErr ''There was an error downloading %s'' [AStr ''S1B_IW_SLC__1SDV''],
          PrintExc (OtherException ''ConnectionError'')],
         [Called 0 (JStr ''a'')])"
proof -
  let ?pk = "example_entry ''S1B_IW_SLC__1SDV'' ''k''"
  let ?pa = "example_entry ''S1B_IW_SLC__1SDV'' ''a''"
  let ?rest = "[example_entry ''S1A_EW_GRDH_1SDH'' ''b'']"
  let ?w = "example_found (?pk # ?rest)"
  let ?start = "emit [Print ''Will download %d products'' [AInt (int (length (?pk # ?rest)))]]
              (?w\<lparr>products := Some (JArr (?pk # ?rest))\<rparr>)"
  have pos: "(0::int) < 3" by simp
  have uk: "getitem ?pk ''id'' = Inr (JStr ''k'')"
    by (simp add: getitem_def example_entry_def)
  have dk: "flaky_download (JStr ''k'') ''.'' False False ?start = Some (Inl KeyboardInterrupt, ?start)"
    by (simp add: flaky_download_def)
  have tk: "product_title ?pk = Inr ''S1B_IW_SLC__1SDV''"
    by (simp add: product_title_def getitem_def example_entry_def)
  note t = fatal_errors_abort_batch [where dl = flaky_download, OF pos uk dk,
      where title = "''S1B_IW_SLC__1SDV''" and i = 0 and m = 3 and ?w0.0 = ?start and log0 = "[]"
        and rest = ?rest and n = "Suc (Suc 0)" and result = Map.empty
        and path = "join ''.'' (''S1B_IW_SLC__1SDV'' @ ''.zip'')" and pinfo = None and log = "[]"]
  from conjunct1 [OF t]
  have a: "attempts flaky_download 0 ?pk ''S1B_IW_SLC__1SDV'' ''.'' False False
             (join ''.'' (''S1B_IW_SLC__1SDV'' @ ''.zip'')) None False 3 ?start [] =
           Some (Inl KeyboardInterrupt, ?start, [] @ [Called 0 (JStr ''k'')])"
    by simp
  from conjunct2 [OF conjunct2 [OF t]] tk a
  have "download_products flaky_download ''.'' 3 False False (Suc (Suc 0)) 0 (?pk # ?rest) Map.empty ?start [] =
            Some (Inl KeyboardInterrupt, ?start, [] @ [Called 0 (JStr ''k'')])"
    by blast
  moreover have "download_all flaky_download ''.'' 3 False False ?w =
      download_products flaky_download ''.'' 3 False False (Suc (Suc 0)) 0 (?pk # ?rest) Map.empty ?start []"
    by (simp add: download_all_def example_found_products as_list_def del: download_products.simps)
  ultimately have "download_all flaky_download ''.'' 3 False False ?w =
      Some (Inl KeyboardInterrupt, ?start, [Called 0 (JStr ''k'')])"
    by (simp del: download_products.simps)
  then have 1: "map_option (\<lambda>(r, w, log). (r, log))
     (download_all flaky_download ''.'' 3 False False ?w) =
     Some (Inl KeyboardInterrupt, [Called 0 (JStr ''k'')])"
    by simp
  have 2: "map_option (\<lambda>(r, w, log). (r, trace w, log))
     (attempts flaky_download 0 ?pa ''S1B_IW_SLC__1SDV''
        ''.'' False False ''./S1B_IW_SLC__1SDV.zip'' None False 1 (example_world Map.empty) []) =
   Some (Inr (''./S1B_IW_SLC__1SDV.zip'', None),
         [PrintErr ''There was an error downloading %s'' [AStr ''S1B_IW_SLC__1SDV''],
          PrintExc (OtherException ''ConnectionError'')],
         [Called 0 (JStr ''a'')])"
    by (simp add: run_defs attempts.simps example_world_def)
  from 1 2 show ?thesis by (rule conjI)
qed

section \<open>get\_products\_size: one rounding, after the sum\<close>

lemma split_sep_no_sep: "sep \<notin> set s \<Longrightarrow> split_sep sep s = [s]"
  by (induction s) auto

lemma split_sep_two:
  "sep \<notin> set v \<Longrightarrow> sep \<notin> set u \<Longrightarrow> split_sep sep (v @ sep # u) = [v, u]"
  by (induction v) (auto simp: split_sep_no_sep)

lemma size_in_gb_value_unit:
  assumes "CHR '' '' \<notin> set v" and "CHR '' '' \<notin> set u" and "float_of_str lib v = Some x"
  shows "size_in_gb lib (JStr (v @ '' '' @ u)) =
     Inr (if u = ''MB'' then float_div lib x (float_of_int lib 1024)
          else if u = ''KB'' then float_div lib x (float_of_int lib (1024 * 1024))
          else x)"
  using assms by (simp add: size_in_gb_def split_sep_two index_def)

lemma size_loop_sum:
  "list_all2 (\<lambda>p (v, u, x). size_content p = Inr (JStr (v @ '' '' @ u)) \<and>
        CHR '' '' \<notin> set v \<and> CHR '' '' \<notin> set u \<and> float_of_str lib v = Some x) ps sizes \<Longrightarrow>
   size_loop lib ps size_total =
     Inr (foldl (add_float lib) size_total
            (map (\<lambda>(v, u, x). if u = ''MB'' then float_div lib x (float_of_int lib 1024)
                              else if u = ''KB'' then float_div lib x (float_of_int lib (1024 * 1024))
                              else x) sizes))"
proof (induction ps sizes arbitrary: size_total rule: list_all2_induct)
  case Nil
  then show ?case by simp
next
  case (Cons p ps s sizes)
  obtain v u x where s: "s = (v, u, x)" by (cases s)
  from Cons.hyps(1) s
  have c: "size_content p = Inr (JStr (v @ '' '' @ u))"
    and h: "CHR '' '' \<notin> set v" "CHR '' '' \<notin> set u" "float_of_str lib v = Some x"
    by auto
  note g = size_in_gb_value_unit [OF h]
  show ?case
    unfolding s by (simp only: size_loop.simps c g sum.case Cons.IH list.map foldl_Cons prod.case)
qed

lemma foldl_add_float:
  "foldl (add_float lib) (PyFloat t) gs = PyFloat (foldl (float_add lib) t gs)"
  by (induction gs arbitrary: t) (simp_all add: add_float_def)

lemma size_content_first_size:
  assumes "getitem product ''str'' = Inr (JArr (before @ x # after))"
    and "\<forall>y\<in>set before. \<exists>name. getitem y ''name'' = Inr name \<and> name \<noteq> JStr ''size''"
    and "getitem x ''name'' = Inr (JStr ''size'')"
  shows "size_content product = getitem x ''content''"
proof -
  have "next_size (before @ x # after) = Inr x"
    using assms(2,3) by (induction before) auto
  then show ?thesis
    by (simp add: size_content_def assms(1) as_list_def)
qed

lemma sized_entry_content: "size_content (sized_entry s) = Inr (JStr s)"
  by (simp add: size_content_def sized_entry_def getitem_def as_list_def)

text \<open>
  Claim C9. Let every entry of the search report its size as
  \<open>"<value> <unit>"\<close>, the value a string that \<open>float\<close> accepts. Then
  \<open>get_products_size\<close> converts the float of each value by its unit (MB:
  divided by 1024; KB: divided by 1024 * 1024; GB, like any other unit:
  unchanged), adds the converted values in the order of the entries, starting
  from the int 0, and rounds the sum once, to 2 digits. For the sizes
  \<open>500 MB\<close> and \<open>1 KB\<close> that is
  \<open>round((0 + float('500') / 1024) + float('1') / (1024 * 1024), 2)\<close>.
  Without entries the result is \<open>round(0, 2)\<close> of the int 0.
\<close>

theorem get_products_size_rounds_the_sum_once:
  assumes "get_products w = (Inr found, w')" and "as_list found = Inr ps"
    and "list_all2 (\<lambda>p (v, u, x). size_content p = Inr (JStr (v @ '' '' @ u)) \<and>
           CHR '' '' \<notin> set v \<and> CHR '' '' \<notin> set u \<and> float_of_str lib v = Some x) ps sizes"
  shows "get_products_size lib w =
     (Inr (case map (\<lambda>(v, u, x).
                       if u = ''MB'' then float_div lib x (float_of_int lib 1024)
                       else if u = ''KB'' then float_div lib x (float_of_int lib (1024 * 1024))
                       else x) sizes of
             [] \<Rightarrow> round_int lib 0 2
           | g # gs \<Rightarrow>
               PyFloat (round_float lib
                 (foldl (float_add lib) (float_add lib (float_of_int lib 0) g) gs) 2)),
      w')"
proof -
  let ?gb = "map (\<lambda>(v, u, x).
                 if u = ''MB'' then float_div lib x (float_of_int lib 1024)
                 else if u = ''KB'' then float_div lib x (float_of_int lib (1024 * 1024))
                 else x) sizes"
  have "get_products_size lib w = (Inr (py_round lib (foldl (add_float lib) (PyInt 0) ?gb) 2), w')"
    by (simp add: get_products_size_def assms(1,2) size_loop_sum [OF assms(3)])
  also have "py_round lib (foldl (add_float lib) (PyInt 0) ?gb) 2 =
      (case ?gb of
         [] \<Rightarrow> round_int lib 0 2
       | g # gs \<Rightarrow>
           PyFloat (round_float lib
             (foldl (float_add lib) (float_add lib (float_of_int lib 0) g) gs) 2))"
    by (cases ?gb) (simp_all add: py_round_def add_float_def foldl_add_float)
  finally show ?thesis .
qed

theorem get_products_size_rounds_the_sum_once_witness:
  "fst (get_products_size symbolic_floats
          (example_found [sized_entry ''500 MB'', sized_entry ''1 KB''])) =
     Inr (PyFloat (Round (Add (Add (FloatOfInt 0) (Div (FloatOfStr ''500'') (FloatOfInt 1024)))
                              (Div (FloatOfStr ''1'') (FloatOfInt (1024 * 1024)))) 2))
   \<and> fst (get_products_size symbolic_floats (example_found [sized_entry ''2.5 GB''])) =
     Inr (PyFloat (Round (Add (FloatOfInt 0) (FloatOfStr ''2.5'')) 2))"
proof -
  let ?ps = "[sized_entry ''500 MB'', sized_entry ''1 KB'']"
  have l: "as_list (JArr ps) = Inr ps" for ps
    by (simp add: as_list_def)
  have s: "list_all2 (\<lambda>p (v, u, x). size_content p = Inr (JStr (v @ '' '' @ u)) \<and>
           CHR '' '' \<notin> set v \<and> CHR '' '' \<notin> set u \<and> float_of_str symbolic_floats v = Some x)
        ?ps [(''500'', ''MB'', FloatOfStr ''500''), (''1'', ''KB'', FloatOfStr ''1'')]"
    by (simp add: sized_entry_content symbolic_floats_def is_digit_def)
  have g: "list_all2 (\<lambda>p (v, u, x). size_content p = Inr (JStr (v @ '' '' @ u)) \<and>
           CHR '' '' \<notin> set v \<and> CHR '' '' \<notin> set u \<and> float_of_str symbolic_floats v = Some x)
        [sized_entry ''2.5 GB''] [(''2.5'', ''GB'', FloatOfStr ''2.5'')]"
    by (simp add: sized_entry_content symbolic_floats_def is_digit_def)
  from get_products_size_rounds_the_sum_once [OF example_found_products l s]
  have "fst (get_products_size symbolic_floats (example_found ?ps)) =
     Inr (PyFloat (Round (Add (Add (FloatOfInt 0) (Div (FloatOfStr ''500'') (FloatOfInt 1024)))
                              (Div (FloatOfStr ''1'') (FloatOfInt (1024 * 1024)))) 2))"
    by (simp add: symbolic_floats_def)
  moreover from get_products_size_rounds_the_sum_once [OF example_found_products l g]
  have "fst (get_products_size symbolic_floats (example_found [sized_entry ''2.5 GB''])) =
     Inr (PyFloat (Round (Add (FloatOfInt 0) (FloatOfStr ''2.5'')) 2))"
    by (simp add: symbolic_floats_def)
  ultimately show ?thesis by (rule conjI)
qed


end
